theory Spec2Isabelle
  imports Complex_Main "HOL-Library.Word" "HOL-Library.Signed_Division"
begin

unbundle bit_operations_syntax

section \<open>Machine types of the Go source\<close>

text \<open>
  Go's fixed-width integers are words: \<open>uint8\<close>, \<open>uint16\<close>, \<open>uint32\<close>, \<open>uint64\<close> and the
  bit patterns of \<open>int16\<close>, \<open>int32\<close>, \<open>int64\<close> (read with \<open>sint\<close>). Go's \<open>int\<close> holds
  slice lengths and indices that never exceed \<open>2 ^ 17\<close> in the modelled code, so it is
  \<open>int\<close>. A \<open>float64\<close> is idealised as a \<open>real\<close>: rounding of the arithmetic, infinities
  and NaN are outside the model.
\<close>

type_synonym uint8 = "8 word"
type_synonym uint16 = "16 word"
type_synonym uint32 = "32 word"
type_synonym uint64 = "64 word"
type_synonym int64 = "64 word"
type_synonym float64 = real

section \<open>Errors\<close>

text \<open>
  \<open>AddressOutOfRange\<close> and \<open>InvalidAddress\<close> are the two families of \<open>fmt.Errorf\<close> values
  of the register map (the address-out-of-range messages and the invalid-address message of
  the scaled accessors); \<open>ModbusError c\<close> is \<open>&ModbusError{Code: c}\<close> of handler.go;
  \<open>AlreadyRunning\<close> and \<open>ListenFailed\<close> are the two \<open>fmt.Errorf\<close> values of \<open>Slave.Start\<close>.
\<close>

datatype error =
    AddressOutOfRange
  | InvalidAddress
  | ModbusError uint8
  | AlreadyRunning
  | ListenFailed

definition ExceptionCodeIllegalFunction :: uint8 where
  "ExceptionCodeIllegalFunction = 0x01"

definition ExceptionCodeIllegalDataAddress :: uint8 where
  "ExceptionCodeIllegalDataAddress = 0x02"

definition ExceptionCodeIllegalDataValue :: uint8 where
  "ExceptionCodeIllegalDataValue = 0x03"

section \<open>Register map\<close>

datatype DataType =
    DataTypeUint16
  | DataTypeInt16
  | DataTypeUint32
  | DataTypeInt32
  | DataTypeFloat32

fun RegisterCount :: "DataType \<Rightarrow> int" where
  "RegisterCount DataTypeUint32 = 2"
| "RegisterCount DataTypeInt32 = 2"
| "RegisterCount DataTypeFloat32 = 2"
| "RegisterCount _ = 1"

record RegisterMeta =
  Address :: uint16
  Name :: string
  DataType :: DataType
  Scale :: float64
  Unit :: string
  Writable :: bool
  MinValue :: float64
  MaxValue :: float64

record RegisterMap =
  coils :: "bool list"
  discreteInputs :: "bool list"
  inputRegisters :: "uint16 list"
  holdingRegisters :: "uint16 list"
  definitions :: "uint16 \<rightharpoonup> RegisterMeta"

definition NewRegisterMap :: "nat \<Rightarrow> nat \<Rightarrow> nat \<Rightarrow> nat \<Rightarrow> RegisterMap" where
  "NewRegisterMap coilSize discreteSize inputSize holdingSize =
     \<lparr> coils = replicate coilSize False,
       discreteInputs = replicate discreteSize False,
       inputRegisters = replicate inputSize 0,
       holdingRegisters = replicate holdingSize 0,
       definitions = Map.empty \<rparr>"

definition DefineRegister ::
  "RegisterMap \<Rightarrow> uint16 \<Rightarrow> string \<Rightarrow> DataType \<Rightarrow> float64 \<Rightarrow> string \<Rightarrow> bool \<Rightarrow> RegisterMap" where
  "DefineRegister rm address name dataType scale unit writable =
     rm\<lparr>definitions := (definitions rm)(address \<mapsto>
        \<lparr> Address = address, Name = name, DataType = dataType, Scale = scale,
          Unit = unit, Writable = writable, MinValue = 0, MaxValue = 0 \<rparr>)\<rparr>"

definition GetDefinition :: "RegisterMap \<Rightarrow> uint16 \<Rightarrow> RegisterMeta option" where
  "GetDefinition rm address = definitions rm address"

subsection \<open>Go slices\<close>

text \<open>
  \<open>go_slice xs lo hi\<close> is \<open>xs[lo:hi]\<close> for \<open>0 \<le> lo \<le> hi \<le> len xs\<close> (the callers check the
  bounds first). \<open>go_copy dst src\<close> is the content of \<open>dst\<close> after \<open>copy(dst, src)\<close>: the first
  \<open>min (len dst) (len src)\<close> elements are overwritten. \<open>go_copy_into xs lo hi src\<close> is the
  content of \<open>xs\<close> after \<open>copy(xs[lo:hi], src)\<close>, the sub-slice sharing the array of \<open>xs\<close>.
\<close>

definition go_slice :: "'a list \<Rightarrow> int \<Rightarrow> int \<Rightarrow> 'a list" where
  "go_slice xs lo hi = take (nat (hi - lo)) (drop (nat lo) xs)"

definition go_copy :: "'a list \<Rightarrow> 'a list \<Rightarrow> 'a list" where
  "go_copy dst src =
     take (min (length dst) (length src)) src @ drop (min (length dst) (length src)) dst"

definition go_copy_into :: "'a list \<Rightarrow> int \<Rightarrow> int \<Rightarrow> 'a list \<Rightarrow> 'a list" where
  "go_copy_into xs lo hi src =
     take (nat lo) xs @ go_copy (go_slice xs lo hi) src @ drop (nat hi) xs"

subsection \<open>Coils (0x)\<close>

definition ReadCoil :: "RegisterMap \<Rightarrow> uint16 \<Rightarrow> error + bool" where
  "ReadCoil rm address =
     (if uint address \<ge> int (length (coils rm)) then Inl AddressOutOfRange
      else Inr (coils rm ! unat address))"

definition ReadCoils :: "RegisterMap \<Rightarrow> uint16 \<Rightarrow> uint16 \<Rightarrow> error + bool list" where
  "ReadCoils rm address quantity =
     (let end = uint address + uint quantity in
      if end > int (length (coils rm)) then Inl AddressOutOfRange
      else Inr (go_copy (replicate (unat quantity) False)
                        (go_slice (coils rm) (uint address) end)))"

definition WriteCoil :: "RegisterMap \<Rightarrow> uint16 \<Rightarrow> bool \<Rightarrow> error + RegisterMap" where
  "WriteCoil rm address v =
     (if uint address \<ge> int (length (coils rm)) then Inl AddressOutOfRange
      else Inr (rm\<lparr>coils := (coils rm)[unat address := v]\<rparr>))"

definition WriteCoils :: "RegisterMap \<Rightarrow> uint16 \<Rightarrow> bool list \<Rightarrow> error + RegisterMap" where
  "WriteCoils rm address vs =
     (let end = uint address + int (length vs) in
      if end > int (length (coils rm)) then Inl AddressOutOfRange
      else Inr (rm\<lparr>coils := go_copy_into (coils rm) (uint address) end vs\<rparr>))"

subsection \<open>Discrete inputs (1x)\<close>

definition ReadDiscreteInput :: "RegisterMap \<Rightarrow> uint16 \<Rightarrow> error + bool" where
  "ReadDiscreteInput rm address =
     (if uint address \<ge> int (length (discreteInputs rm)) then Inl AddressOutOfRange
      else Inr (discreteInputs rm ! unat address))"

definition ReadDiscreteInputs :: "RegisterMap \<Rightarrow> uint16 \<Rightarrow> uint16 \<Rightarrow> error + bool list" where
  "ReadDiscreteInputs rm address quantity =
     (let end = uint address + uint quantity in
      if end > int (length (discreteInputs rm)) then Inl AddressOutOfRange
      else Inr (go_copy (replicate (unat quantity) False)
                        (go_slice (discreteInputs rm) (uint address) end)))"

definition SetDiscreteInput :: "RegisterMap \<Rightarrow> uint16 \<Rightarrow> bool \<Rightarrow> error + RegisterMap" where
  "SetDiscreteInput rm address v =
     (if uint address \<ge> int (length (discreteInputs rm)) then Inl AddressOutOfRange
      else Inr (rm\<lparr>discreteInputs := (discreteInputs rm)[unat address := v]\<rparr>))"

subsection \<open>Input registers (3x)\<close>

definition ReadInputRegister :: "RegisterMap \<Rightarrow> uint16 \<Rightarrow> error + uint16" where
  "ReadInputRegister rm address =
     (if uint address \<ge> int (length (inputRegisters rm)) then Inl AddressOutOfRange
      else Inr (inputRegisters rm ! unat address))"

definition ReadInputRegisters :: "RegisterMap \<Rightarrow> uint16 \<Rightarrow> uint16 \<Rightarrow> error + uint16 list" where
  "ReadInputRegisters rm address quantity =
     (let end = uint address + uint quantity in
      if end > int (length (inputRegisters rm)) then Inl AddressOutOfRange
      else Inr (go_copy (replicate (unat quantity) 0)
                        (go_slice (inputRegisters rm) (uint address) end)))"

definition SetInputRegister :: "RegisterMap \<Rightarrow> uint16 \<Rightarrow> uint16 \<Rightarrow> error + RegisterMap" where
  "SetInputRegister rm address v =
     (if uint address \<ge> int (length (inputRegisters rm)) then Inl AddressOutOfRange
      else Inr (rm\<lparr>inputRegisters := (inputRegisters rm)[unat address := v]\<rparr>))"

subsection \<open>Holding registers (4x)\<close>

text \<open>\<open>40001 -> 0\<close>, \<open>40002 -> 1\<close>, and so on; an address below 40001 is its own index.\<close>

definition holdingIndex :: "uint16 \<Rightarrow> int" where
  "holdingIndex address =
     (if address \<ge> 40001 then uint (address - 40001) else uint address)"

definition ReadHoldingRegister :: "RegisterMap \<Rightarrow> uint16 \<Rightarrow> error + uint16" where
  "ReadHoldingRegister rm address =
     (let idx = holdingIndex address in
      if idx < 0 \<or> idx \<ge> int (length (holdingRegisters rm)) then Inl AddressOutOfRange
      else Inr (holdingRegisters rm ! nat idx))"

definition ReadHoldingRegisters :: "RegisterMap \<Rightarrow> uint16 \<Rightarrow> uint16 \<Rightarrow> error + uint16 list" where
  "ReadHoldingRegisters rm address quantity =
     (let startIdx = holdingIndex address;
          endIdx = startIdx + uint quantity in
      if startIdx < 0 \<or> endIdx > int (length (holdingRegisters rm)) then Inl AddressOutOfRange
      else Inr (go_copy (replicate (unat quantity) 0)
                        (go_slice (holdingRegisters rm) startIdx endIdx)))"

definition WriteHoldingRegister :: "RegisterMap \<Rightarrow> uint16 \<Rightarrow> uint16 \<Rightarrow> error + RegisterMap" where
  "WriteHoldingRegister rm address v =
     (let idx = holdingIndex address in
      if idx < 0 \<or> idx \<ge> int (length (holdingRegisters rm)) then Inl AddressOutOfRange
      else Inr (rm\<lparr>holdingRegisters := (holdingRegisters rm)[nat idx := v]\<rparr>))"

definition WriteHoldingRegisters ::
  "RegisterMap \<Rightarrow> uint16 \<Rightarrow> uint16 list \<Rightarrow> error + RegisterMap" where
  "WriteHoldingRegisters rm address vs =
     (let startIdx = holdingIndex address;
          endIdx = startIdx + int (length vs) in
      if startIdx < 0 \<or> endIdx > int (length (holdingRegisters rm)) then Inl AddressOutOfRange
      else Inr (rm\<lparr>holdingRegisters :=
                    go_copy_into (holdingRegisters rm) startIdx endIdx vs\<rparr>))"

subsection \<open>Scaled values\<close>

text \<open>
  Go's conversion of a \<open>float64\<close> to an integer type discards the fraction (truncation
  towards zero). For a value that the target type cannot represent the Go specification
  leaves the result to the implementation; the model takes the two's-complement wrap-around
  there, and every theorem that depends on a converted value states the range it needs.
\<close>

definition float_trunc :: "float64 \<Rightarrow> int" where
  "float_trunc x = (if x \<ge> 0 then \<lfloor>x\<rfloor> else \<lceil>x\<rceil>)"

definition uint16_of_float64 :: "float64 \<Rightarrow> uint16" where
  "uint16_of_float64 x = word_of_int (float_trunc x)"

definition int16_of_float64 :: "float64 \<Rightarrow> 16 word" where
  "int16_of_float64 x = word_of_int (float_trunc x)"

definition uint32_of_float64 :: "float64 \<Rightarrow> uint32" where
  "uint32_of_float64 x = word_of_int (float_trunc x)"

definition int32_of_float64 :: "float64 \<Rightarrow> 32 word" where
  "int32_of_float64 x = word_of_int (float_trunc x)"

text \<open>
  \<open>join_words hi lo\<close> is the expression \<open>uint32(hi)<<16 | uint32(lo)\<close> that
  \<open>GetScaledValue\<close> repeats in its three two-word cases.
\<close>

definition join_words :: "uint16 \<Rightarrow> uint16 \<Rightarrow> uint32" where
  "join_words hi lo = push_bit 16 (ucast hi) OR ucast lo"

text \<open>
  The IEEE-754 single-precision encoding is the Go standard library's, not this
  repository's: \<open>Float32bits\<close> stands for \<open>math.Float32bits(float32(value))\<close> and
  \<open>Float32frombits\<close> for \<open>float64(math.Float32frombits(bits))\<close>; both are parameters.
  \<open>DataType\<close> is an \<open>int\<close> in Go; the model covers its five declared values.
  A \<open>Scale\<close> of zero makes Go's division yield an infinity or NaN, which \<open>real\<close> does not have.
\<close>

definition SetScaledValue ::
  "(float64 \<Rightarrow> uint32) \<Rightarrow> RegisterMap \<Rightarrow> uint16 \<Rightarrow> float64 \<Rightarrow> error + RegisterMap" where
  "SetScaledValue Float32bits rm address v =
     (case definitions rm address of
        None \<Rightarrow>
          (let idx = holdingIndex address in
           if idx < 0 \<or> idx \<ge> int (length (holdingRegisters rm)) then Inl AddressOutOfRange
           else Inr (rm\<lparr>holdingRegisters :=
                         (holdingRegisters rm)[nat idx := uint16_of_float64 v]\<rparr>))
      | Some meta \<Rightarrow>
          (let scaledValue = v * Scale meta;
               idx = holdingIndex address in
           if idx < 0 then Inl InvalidAddress
           else (case DataType meta of
              DataTypeUint16 \<Rightarrow>
                if idx \<ge> int (length (holdingRegisters rm)) then Inl AddressOutOfRange
                else Inr (rm\<lparr>holdingRegisters :=
                              (holdingRegisters rm)[nat idx := uint16_of_float64 scaledValue]\<rparr>)
            | DataTypeInt16 \<Rightarrow>
                if idx \<ge> int (length (holdingRegisters rm)) then Inl AddressOutOfRange
                else Inr (rm\<lparr>holdingRegisters :=
                              (holdingRegisters rm)[nat idx := int16_of_float64 scaledValue]\<rparr>)
            | DataTypeUint32 \<Rightarrow>
                if idx + 1 \<ge> int (length (holdingRegisters rm)) then Inl AddressOutOfRange
                else (let u32 = uint32_of_float64 scaledValue in
                      Inr (rm\<lparr>holdingRegisters :=
                              (holdingRegisters rm)
                                [nat idx := ucast (drop_bit 16 u32),
                                 nat (idx + 1) := ucast u32]\<rparr>))
            | DataTypeInt32 \<Rightarrow>
                if idx + 1 \<ge> int (length (holdingRegisters rm)) then Inl AddressOutOfRange
                else (let i32 = int32_of_float64 scaledValue in
                      Inr (rm\<lparr>holdingRegisters :=
                              (holdingRegisters rm)
                                [nat idx := ucast (signed_drop_bit 16 i32),
                                 nat (idx + 1) := ucast i32]\<rparr>))
            | DataTypeFloat32 \<Rightarrow>
                if idx + 1 \<ge> int (length (holdingRegisters rm)) then Inl AddressOutOfRange
                else (let bits = Float32bits v in
                      Inr (rm\<lparr>holdingRegisters :=
                              (holdingRegisters rm)
                                [nat idx := ucast (drop_bit 16 bits),
                                 nat (idx + 1) := ucast bits]\<rparr>)))))"

definition GetScaledValue ::
  "(uint32 \<Rightarrow> float64) \<Rightarrow> RegisterMap \<Rightarrow> uint16 \<Rightarrow> error + float64" where
  "GetScaledValue Float32frombits rm address =
     (case definitions rm address of
        None \<Rightarrow>
          (let idx = holdingIndex address in
           if idx < 0 \<or> idx \<ge> int (length (holdingRegisters rm)) then Inl AddressOutOfRange
           else Inr (real (unat (holdingRegisters rm ! nat idx))))
      | Some meta \<Rightarrow>
          (let idx = holdingIndex address in
           if idx < 0 then Inl InvalidAddress
           else (case DataType meta of
              DataTypeUint16 \<Rightarrow>
                if idx \<ge> int (length (holdingRegisters rm)) then Inl AddressOutOfRange
                else Inr (real (unat (holdingRegisters rm ! nat idx)) / Scale meta)
            | DataTypeInt16 \<Rightarrow>
                if idx \<ge> int (length (holdingRegisters rm)) then Inl AddressOutOfRange
                else Inr (real_of_int (sint (holdingRegisters rm ! nat idx)) / Scale meta)
            | DataTypeUint32 \<Rightarrow>
                if idx + 1 \<ge> int (length (holdingRegisters rm)) then Inl AddressOutOfRange
                else (let u32 = join_words (holdingRegisters rm ! nat idx)
                                           (holdingRegisters rm ! nat (idx + 1)) in
                      Inr (real (unat u32) / Scale meta))
            | DataTypeInt32 \<Rightarrow>
                if idx + 1 \<ge> int (length (holdingRegisters rm)) then Inl AddressOutOfRange
                else (let i32 = join_words (holdingRegisters rm ! nat idx)
                                           (holdingRegisters rm ! nat (idx + 1)) in
                      Inr (real_of_int (sint i32) / Scale meta))
            | DataTypeFloat32 \<Rightarrow>
                if idx + 1 \<ge> int (length (holdingRegisters rm)) then Inl AddressOutOfRange
                else (let bits = join_words (holdingRegisters rm ! nat idx)
                                            (holdingRegisters rm ! nat (idx + 1)) in
                      Inr (Float32frombits bits)))))"

text \<open>A call statement \<open>rm.SetScaledValue(a, v)\<close> that drops the returned error.\<close>

definition SetScaledValue_stmt ::
  "(float64 \<Rightarrow> uint32) \<Rightarrow> RegisterMap \<Rightarrow> uint16 \<Rightarrow> float64 \<Rightarrow> RegisterMap" where
  "SetScaledValue_stmt Float32bits rm address v =
     (case SetScaledValue Float32bits rm address v of Inl e \<Rightarrow> rm | Inr rm' \<Rightarrow> rm')"

definition DefaultRegisterMap :: "(float64 \<Rightarrow> uint32) \<Rightarrow> RegisterMap" where
  "DefaultRegisterMap Float32bits =
     (let rm = NewRegisterMap 10000 10000 10000 10000;
          rm = DefineRegister rm 40001 ''LineVoltage'' DataTypeUint16 10 ''V'' False;
          rm = DefineRegister rm 40002 ''LineCurrent'' DataTypeUint16 100 ''A'' False;
          rm = DefineRegister rm 40003 ''Frequency'' DataTypeUint16 100 ''Hz'' False;
          rm = DefineRegister rm 40004 ''TotalEnergy'' DataTypeUint32 1 ''kWh'' False;
          rm = DefineRegister rm 40006 ''PowerFactor'' DataTypeUint16 1000 [] False;
          rm = DefineRegister rm 40007 ''ActivePower'' DataTypeUint32 10 ''W'' False;
          rm = SetScaledValue_stmt Float32bits rm 40001 220.0;
          rm = SetScaledValue_stmt Float32bits rm 40002 15.50;
          rm = SetScaledValue_stmt Float32bits rm 40003 60.00;
          rm = SetScaledValue_stmt Float32bits rm 40004 0;
          rm = SetScaledValue_stmt Float32bits rm 40006 0.95;
          rm = SetScaledValue_stmt Float32bits rm 40007 3300.0
      in rm)"

section \<open>Scenarios\<close>

text \<open>
  A \<open>time.Duration\<close> is an \<open>int64\<close> count of nanoseconds. A \<open>time.Time\<close> is \<open>None\<close> for the
  zero value \<open>time.Time{}\<close> and \<open>Some t\<close> for a clock reading of \<open>t\<close> nanoseconds.
  \<open>Since now t\<close> is \<open>time.Since(t)\<close> evaluated when the clock reads \<open>now\<close>: the difference,
  saturated to the range of a \<open>Duration\<close>; the zero time lies further in the past than a
  \<open>Duration\<close> can express. \<open>Hours d\<close> is \<open>d.Hours()\<close>.
\<close>

type_synonym Duration = int64
type_synonym Time = "int option"

definition maxDuration :: int where
  "maxDuration = 2 ^ 63 - 1"

definition minDuration :: int where
  "minDuration = - (2 ^ 63)"

definition Since :: "int \<Rightarrow> Time \<Rightarrow> int" where
  "Since now t =
     (case t of
        None \<Rightarrow> maxDuration
      | Some t0 \<Rightarrow> max minDuration (min maxDuration (now - t0)))"

definition Hours :: "int \<Rightarrow> float64" where
  "Hours d = real_of_int d / 3600000000000"

definition Second :: int where
  "Second = 1000000000"

definition Millisecond :: int where
  "Millisecond = 1000000"

record ScenarioParams =
  Enabled :: bool
  Duration :: Duration
  VoltageVariance :: float64
  FrequencyVariance :: float64
  JitterMin :: Duration
  JitterMax :: Duration
  PacketLossRate :: float64

text \<open>
  What one call of \<open>Update\<close> reads from outside: the three \<open>rand.Float64()\<close> draws, each
  in \<open>[0, 1)\<close>, and the clock readings of its \<open>time.Now()\<close> and \<open>time.Since\<close> calls, in
  program order: \<open>sag_now_start\<close> (initialisation of \<open>VoltageSagScenario\<close>), \<open>now_init\<close>
  (initialisation of \<open>NormalScenario\<close>), \<open>now_since\<close> (the \<open>time.Since(s.lastUpdate)\<close>),
  \<open>now_store\<close> (the new \<open>lastUpdate\<close>) and \<open>sag_now_since\<close> (the \<open>time.Since(s.startTime)\<close>).
\<close>

record tick_env =
  rand_voltage :: float64
  rand_frequency :: float64
  rand_current :: float64
  sag_now_start :: int
  now_init :: int
  now_since :: int
  now_store :: int
  sag_now_since :: int

record NormalScenario =
  baseVoltage :: float64
  baseCurrent :: float64
  baseFrequency :: float64
  basePower :: float64
  energy :: float64
  lastUpdate :: Time

text \<open>The zero value \<open>&NormalScenario{}\<close> that \<open>init\<close> registers.\<close>

definition NormalScenario_zero :: NormalScenario where
  "NormalScenario_zero =
     \<lparr> baseVoltage = 0, baseCurrent = 0, baseFrequency = 0, basePower = 0,
       energy = 0, lastUpdate = None \<rparr>"

definition NormalScenario_Update ::
  "(float64 \<Rightarrow> uint32) \<Rightarrow> NormalScenario \<Rightarrow> RegisterMap \<Rightarrow> ScenarioParams \<Rightarrow> tick_env
     \<Rightarrow> NormalScenario \<times> RegisterMap" where
  "NormalScenario_Update Float32bits s0 registers params env =
     (let s = (if baseVoltage s0 = 0
               then s0\<lparr>baseVoltage := 220.0, baseCurrent := 15.5, baseFrequency := 60.0,
                       basePower := 3300.0, lastUpdate := Some (now_init env)\<rparr>
               else s0);
          voltageVariance = (if VoltageVariance params = 0 then 0.005
                             else VoltageVariance params);
          voltage = baseVoltage s * (1 + (rand_voltage env * 2 - 1) * voltageVariance);
          freqVariance = (if FrequencyVariance params = 0 then 0.0005
                          else FrequencyVariance params);
          frequency = baseFrequency s * (1 + (rand_frequency env * 2 - 1) * freqVariance);
          current = baseCurrent s * (1 + (rand_current env * 2 - 1) * 0.02);
          power = voltage * current * 0.95;
          elapsed = Hours (Since (now_since env) (lastUpdate s));
          s = s\<lparr>energy := energy s + power * elapsed / 1000,
                 lastUpdate := Some (now_store env)\<rparr>;
          registers = SetScaledValue_stmt Float32bits registers 40001 voltage;
          registers = SetScaledValue_stmt Float32bits registers 40002 current;
          registers = SetScaledValue_stmt Float32bits registers 40003 frequency;
          registers = SetScaledValue_stmt Float32bits registers 40004 (energy s);
          registers = SetScaledValue_stmt Float32bits registers 40006 0.95;
          registers = SetScaledValue_stmt Float32bits registers 40007 power
      in (s, registers))"

definition NormalScenario_Reset ::
  "(float64 \<Rightarrow> uint32) \<Rightarrow> NormalScenario \<Rightarrow> RegisterMap \<Rightarrow> int
     \<Rightarrow> NormalScenario \<times> RegisterMap" where
  "NormalScenario_Reset Float32bits s registers now =
     (let s = s\<lparr>energy := 0, lastUpdate := Some now\<rparr>;
          registers = SetScaledValue_stmt Float32bits registers 40001 220.0;
          registers = SetScaledValue_stmt Float32bits registers 40002 15.5;
          registers = SetScaledValue_stmt Float32bits registers 40003 60.0;
          registers = SetScaledValue_stmt Float32bits registers 40004 0;
          registers = SetScaledValue_stmt Float32bits registers 40006 0.95;
          registers = SetScaledValue_stmt Float32bits registers 40007 3300.0
      in (s, registers))"

record VoltageSagScenario =
  sag_normalScenario :: NormalScenario
  startTime :: Time
  duration :: Duration
  sagFactor :: float64

definition VoltageSagScenario_zero :: VoltageSagScenario where
  "VoltageSagScenario_zero =
     \<lparr> sag_normalScenario = NormalScenario_zero, startTime = None, duration = 0,
       sagFactor = 0 \<rparr>"

text \<open>The literal \<open>ScenarioParams{VoltageVariance: 0.005, FrequencyVariance: 0.0005}\<close>.\<close>

definition inner_params :: ScenarioParams where
  "inner_params =
     \<lparr> Enabled = False, Duration = 0, VoltageVariance = 0.005, FrequencyVariance = 0.0005,
       JitterMin = 0, JitterMax = 0, PacketLossRate = 0 \<rparr>"

text \<open>
  The two \<open>GetScaledValue\<close> calls of the sag drop the error (\<open>voltage, _ := ...\<close>); on an
  error the value is \<open>0\<close>.
\<close>

definition GetScaledValue_val ::
  "(uint32 \<Rightarrow> float64) \<Rightarrow> RegisterMap \<Rightarrow> uint16 \<Rightarrow> float64" where
  "GetScaledValue_val Float32frombits rm address =
     (case GetScaledValue Float32frombits rm address of Inl e \<Rightarrow> 0 | Inr v \<Rightarrow> v)"

definition VoltageSagScenario_Update ::
  "(float64 \<Rightarrow> uint32) \<Rightarrow> (uint32 \<Rightarrow> float64) \<Rightarrow> VoltageSagScenario \<Rightarrow> RegisterMap
     \<Rightarrow> ScenarioParams \<Rightarrow> tick_env \<Rightarrow> VoltageSagScenario \<times> RegisterMap" where
  "VoltageSagScenario_Update Float32bits Float32frombits s0 registers params env =
     (let s = (if startTime s0 = None
               then (let d = (if Duration params = 0 then word_of_int (10 * Second)
                              else Duration params);
                         f = 1 - VoltageVariance params
                     in s0\<lparr>startTime := Some (sag_now_start env), duration := d,
                            sagFactor := (if f \<le> 0 \<or> f \<ge> 1 then 0.8 else f)\<rparr>)
               else s0);
          (n, registers) = NormalScenario_Update Float32bits (sag_normalScenario s) registers
                             inner_params env;
          s = s\<lparr>sag_normalScenario := n\<rparr>
      in if Since (sag_now_since env) (startTime s) < sint (duration s)
         then (let voltage = GetScaledValue_val Float32frombits registers 40001;
                   registers = SetScaledValue_stmt Float32bits registers 40001
                                 (voltage * sagFactor s);
                   power = GetScaledValue_val Float32frombits registers 40007;
                   registers = SetScaledValue_stmt Float32bits registers 40007
                                 (power * sagFactor s)
               in (s, registers))
         else (s, registers))"

record JitterScenario =
  jit_normalScenario :: NormalScenario
  jit_jitterMin :: Duration
  jit_jitterMax :: Duration

definition JitterScenario_zero :: JitterScenario where
  "JitterScenario_zero =
     \<lparr> jit_normalScenario = NormalScenario_zero, jit_jitterMin = 0, jit_jitterMax = 0 \<rparr>"

definition JitterScenario_Update ::
  "(float64 \<Rightarrow> uint32) \<Rightarrow> JitterScenario \<Rightarrow> RegisterMap \<Rightarrow> ScenarioParams \<Rightarrow> tick_env
     \<Rightarrow> JitterScenario \<times> RegisterMap" where
  "JitterScenario_Update Float32bits s registers params env =
     (let s = s\<lparr>jit_jitterMin := JitterMin params, jit_jitterMax := JitterMax params\<rparr>;
          s = (if jit_jitterMin s = 0 then s\<lparr>jit_jitterMin := word_of_int (100 * Millisecond)\<rparr>
               else s);
          s = (if jit_jitterMax s = 0 then s\<lparr>jit_jitterMax := word_of_int (500 * Millisecond)\<rparr>
               else s);
          (n, registers) = NormalScenario_Update Float32bits (jit_normalScenario s) registers
                             inner_params env
      in (s\<lparr>jit_normalScenario := n\<rparr>, registers))"

record PacketLossScenario =
  pl_normalScenario :: NormalScenario
  lossRate :: float64

definition PacketLossScenario_zero :: PacketLossScenario where
  "PacketLossScenario_zero = \<lparr> pl_normalScenario = NormalScenario_zero, lossRate = 0 \<rparr>"

definition PacketLossScenario_Update ::
  "(float64 \<Rightarrow> uint32) \<Rightarrow> PacketLossScenario \<Rightarrow> RegisterMap \<Rightarrow> ScenarioParams \<Rightarrow> tick_env
     \<Rightarrow> PacketLossScenario \<times> RegisterMap" where
  "PacketLossScenario_Update Float32bits s registers params env =
     (let s = s\<lparr>lossRate := PacketLossRate params\<rparr>;
          s = (if lossRate s = 0 then s\<lparr>lossRate := 0.05\<rparr> else s);
          (n, registers) = NormalScenario_Update Float32bits (pl_normalScenario s) registers
                             inner_params env
      in (s\<lparr>pl_normalScenario := n\<rparr>, registers))"

text \<open>
  The interface \<open>ScenarioHandler\<close> with its four implementations, and the dynamic dispatch
  of \<open>handler.Update(registers, params)\<close>.
\<close>

datatype ScenarioType = ScenarioNormal | ScenarioVoltageSag | ScenarioJitter | ScenarioPacketLoss

datatype ScenarioHandler =
    HNormal NormalScenario
  | HVoltageSag VoltageSagScenario
  | HJitter JitterScenario
  | HPacketLoss PacketLossScenario

fun Type :: "ScenarioHandler \<Rightarrow> ScenarioType" where
  "Type (HNormal s) = ScenarioNormal"
| "Type (HVoltageSag s) = ScenarioVoltageSag"
| "Type (HJitter s) = ScenarioJitter"
| "Type (HPacketLoss s) = ScenarioPacketLoss"

fun Update ::
  "(float64 \<Rightarrow> uint32) \<Rightarrow> (uint32 \<Rightarrow> float64) \<Rightarrow> ScenarioHandler \<Rightarrow> RegisterMap
     \<Rightarrow> ScenarioParams \<Rightarrow> tick_env \<Rightarrow> ScenarioHandler \<times> RegisterMap" where
  "Update Fb Ff (HNormal s) registers params env =
     (case NormalScenario_Update Fb s registers params env of (s', r) \<Rightarrow> (HNormal s', r))"
| "Update Fb Ff (HVoltageSag s) registers params env =
     (case VoltageSagScenario_Update Fb Ff s registers params env of
        (s', r) \<Rightarrow> (HVoltageSag s', r))"
| "Update Fb Ff (HJitter s) registers params env =
     (case JitterScenario_Update Fb s registers params env of (s', r) \<Rightarrow> (HJitter s', r))"
| "Update Fb Ff (HPacketLoss s) registers params env =
     (case PacketLossScenario_Update Fb s registers params env of
        (s', r) \<Rightarrow> (HPacketLoss s', r))"

text \<open>The \<open>energy\<close> field of the handler's own (or embedded) \<open>NormalScenario\<close>.\<close>

fun handler_energy :: "ScenarioHandler \<Rightarrow> float64" where
  "handler_energy (HNormal s) = energy s"
| "handler_energy (HVoltageSag s) = energy (sag_normalScenario s)"
| "handler_energy (HJitter s) = energy (jit_normalScenario s)"
| "handler_energy (HPacketLoss s) = energy (pl_normalScenario s)"

section \<open>Slave\<close>

datatype SlaveState = SlaveStateStopped | SlaveStateStarting | SlaveStateRunning | SlaveStateStopping

record SlaveStats =
  StartTime :: Time
  RequestCount :: uint64
  ErrorCount :: uint64
  LastRequestTime :: int64
  BytesReceived :: uint64
  BytesSent :: uint64

record Slave =
  ID :: string
  UnitID :: uint8
  state :: SlaveState
  registers :: RegisterMap
  stats :: SlaveStats
  scenario :: ScenarioType

text \<open>\<open>atomic.Int32.CompareAndSwap\<close>: whether the swap happened, and the value afterwards.\<close>

definition CompareAndSwap :: "SlaveState \<Rightarrow> SlaveState \<Rightarrow> SlaveState \<Rightarrow> bool \<times> SlaveState" where
  "CompareAndSwap cur old new = (if cur = old then (True, new) else (False, cur))"

text \<open>
  \<open>Start\<close> and \<open>Stop\<close> run here without another goroutine touching \<open>s.state\<close> in between.
  \<open>listen_ok\<close> is whether \<open>s.server.ListenTCP(addr)\<close> returned no error and \<open>now\<close> is the
  reading of \<open>time.Now()\<close>; the server of the mbserver library and the scenario goroutine
  are not part of the state. The result is the returned error (\<open>None\<close> for \<open>nil\<close>), the
  slave afterwards, and the values the call stored into \<open>s.state\<close>, in order.
\<close>

definition Start :: "Slave \<Rightarrow> int \<Rightarrow> bool \<Rightarrow> error option \<times> Slave \<times> SlaveState list" where
  "Start s now listen_ok =
     (case CompareAndSwap (state s) SlaveStateStopped SlaveStateStarting of
        (False, _) \<Rightarrow> (Some AlreadyRunning, s, [])
      | (True, st) \<Rightarrow>
          (let s = s\<lparr>state := st\<rparr>;
               s = s\<lparr>stats := (stats s)\<lparr>StartTime := Some now\<rparr>\<rparr>
           in if \<not> listen_ok
              then (Some ListenFailed, s\<lparr>state := SlaveStateStopped\<rparr>,
                    [st, SlaveStateStopped])
              else (None, s\<lparr>state := SlaveStateRunning\<rparr>,
                    [st, SlaveStateRunning])))"

definition Stop :: "Slave \<Rightarrow> error option \<times> Slave \<times> SlaveState list" where
  "Stop s =
     (case CompareAndSwap (state s) SlaveStateRunning SlaveStateStopping of
        (False, _) \<Rightarrow> (None, s, [])
      | (True, st) \<Rightarrow>
          (let s = s\<lparr>state := st\<rparr>
           in (None, s\<lparr>state := SlaveStateStopped\<rparr>, [st, SlaveStateStopped])))"

definition State :: "Slave \<Rightarrow> SlaveState" where
  "State s = state s"

text \<open>\<open>now\<close> is \<open>time.Now().UnixNano()\<close>; \<open>uint64(bytesIn)\<close> converts a Go \<open>int\<close>.\<close>

definition recordRequest :: "Slave \<Rightarrow> int64 \<Rightarrow> int \<Rightarrow> int \<Rightarrow> bool \<Rightarrow> Slave" where
  "recordRequest s now bytesIn bytesOut hasError =
     (let st = stats s;
          st = st\<lparr>RequestCount := RequestCount st + 1\<rparr>;
          st = st\<lparr>LastRequestTime := now\<rparr>;
          st = st\<lparr>BytesReceived := BytesReceived st + word_of_int bytesIn\<rparr>;
          st = st\<lparr>BytesSent := BytesSent st + word_of_int bytesOut\<rparr>;
          st = (if hasError then st\<lparr>ErrorCount := ErrorCount st + 1\<rparr> else st)
      in s\<lparr>stats := st\<rparr>)"

section \<open>Request handler\<close>

record RequestHandler =
  slave :: Slave
  jitterEnabled :: bool
  jitterMin :: Duration
  jitterMax :: Duration
  packetLossRate :: float64

definition NewRequestHandler :: "Slave \<Rightarrow> RequestHandler" where
  "NewRequestHandler s =
     \<lparr> slave = s, jitterEnabled = False, jitterMin = 0, jitterMax = 0, packetLossRate = 0 \<rparr>"

definition SetJitter :: "RequestHandler \<Rightarrow> bool \<Rightarrow> Duration \<Rightarrow> Duration \<Rightarrow> RequestHandler" where
  "SetJitter h enabled mn mx = h\<lparr>jitterEnabled := enabled, jitterMin := mn, jitterMax := mx\<rparr>"

definition SetPacketLoss :: "RequestHandler \<Rightarrow> float64 \<Rightarrow> RequestHandler" where
  "SetPacketLoss h rate = h\<lparr>packetLossRate := rate\<rparr>"

text \<open>
  What one \<open>Handle...\<close> call reads from outside: the source of \<open>rand.Int63n\<close>, the draw of
  \<open>rand.Float64()\<close> in \<open>[0, 1)\<close>, and \<open>time.Now().UnixNano()\<close>.
\<close>

record call_env =
  rand_Int63 :: int
  rand_Float64 :: float64
  now_UnixNano :: int64

text \<open>
  \<open>rand.Int63n(n)\<close> panics when \<open>n <= 0\<close> and otherwise returns a number in \<open>[0, n)\<close>.
  A call either panics or returns.
\<close>

datatype 'a outcome = Panic | Return 'a

definition Int63n :: "call_env \<Rightarrow> int \<Rightarrow> int outcome" where
  "Int63n env n = (if n \<le> 0 then Panic else Return (rand_Int63 env mod n))"

text \<open>
  \<open>h.jitterMax - h.jitterMin\<close> is an \<open>int64\<close> subtraction and wraps around. The value
  returned is the duration handed to \<open>time.Sleep\<close>, \<open>None\<close> when jitter is disabled;
  sleeping changes nothing else.
\<close>

definition applyJitter :: "RequestHandler \<Rightarrow> call_env \<Rightarrow> Duration option outcome" where
  "applyJitter h env =
     (if \<not> jitterEnabled h then Return None
      else (case Int63n env (sint (jitterMax h - jitterMin h)) of
              Panic \<Rightarrow> Panic
            | Return r \<Rightarrow> Return (Some (jitterMin h + word_of_int r))))"

definition shouldDropPacket :: "RequestHandler \<Rightarrow> call_env \<Rightarrow> bool" where
  "shouldDropPacket h env =
     (if packetLossRate h \<le> 0 then False else rand_Float64 env < packetLossRate h)"

text \<open>
  Each handler returns its Go results (\<open>None\<close> for a \<open>nil\<close> slice or a \<open>nil\<close> error)
  and the handler afterwards, whose slave carries the registers and the counters.
\<close>

definition HandleReadCoils ::
  "RequestHandler \<Rightarrow> call_env \<Rightarrow> uint16 \<Rightarrow> uint16
     \<Rightarrow> ((bool list option \<times> error option) \<times> RequestHandler) outcome" where
  "HandleReadCoils h env address quantity =
     (case applyJitter h env of
        Panic \<Rightarrow> Panic
      | Return _ \<Rightarrow>
          if shouldDropPacket h env then Return ((None, None), h)
          else (case ReadCoils (registers (slave h)) address quantity of
                  Inl err \<Rightarrow>
                    Return ((None, Some err),
                            h\<lparr>slave := recordRequest (slave h) (now_UnixNano env) 0 0 True\<rparr>)
                | Inr cs \<Rightarrow>
                    Return ((Some cs, None),
                            h\<lparr>slave := recordRequest (slave h) (now_UnixNano env) 8
                                          (3 + (uint quantity + 7) div 8) False\<rparr>)))"

definition HandleReadDiscreteInputs ::
  "RequestHandler \<Rightarrow> call_env \<Rightarrow> uint16 \<Rightarrow> uint16
     \<Rightarrow> ((bool list option \<times> error option) \<times> RequestHandler) outcome" where
  "HandleReadDiscreteInputs h env address quantity =
     (case applyJitter h env of
        Panic \<Rightarrow> Panic
      | Return _ \<Rightarrow>
          if shouldDropPacket h env then Return ((None, None), h)
          else (case ReadDiscreteInputs (registers (slave h)) address quantity of
                  Inl err \<Rightarrow>
                    Return ((None, Some err),
                            h\<lparr>slave := recordRequest (slave h) (now_UnixNano env) 0 0 True\<rparr>)
                | Inr ins \<Rightarrow>
                    Return ((Some ins, None),
                            h\<lparr>slave := recordRequest (slave h) (now_UnixNano env) 8
                                          (3 + (uint quantity + 7) div 8) False\<rparr>)))"

definition HandleReadHoldingRegisters ::
  "RequestHandler \<Rightarrow> call_env \<Rightarrow> uint16 \<Rightarrow> uint16
     \<Rightarrow> ((uint16 list option \<times> error option) \<times> RequestHandler) outcome" where
  "HandleReadHoldingRegisters h env address quantity =
     (case applyJitter h env of
        Panic \<Rightarrow> Panic
      | Return _ \<Rightarrow>
          if shouldDropPacket h env then Return ((None, None), h)
          else (case ReadHoldingRegisters (registers (slave h)) address quantity of
                  Inl err \<Rightarrow>
                    Return ((None, Some err),
                            h\<lparr>slave := recordRequest (slave h) (now_UnixNano env) 0 0 True\<rparr>)
                | Inr rs \<Rightarrow>
                    Return ((Some rs, None),
                            h\<lparr>slave := recordRequest (slave h) (now_UnixNano env) 8
                                          (3 + uint quantity * 2) False\<rparr>)))"

definition HandleReadInputRegisters ::
  "RequestHandler \<Rightarrow> call_env \<Rightarrow> uint16 \<Rightarrow> uint16
     \<Rightarrow> ((uint16 list option \<times> error option) \<times> RequestHandler) outcome" where
  "HandleReadInputRegisters h env address quantity =
     (case applyJitter h env of
        Panic \<Rightarrow> Panic
      | Return _ \<Rightarrow>
          if shouldDropPacket h env then Return ((None, None), h)
          else (case ReadInputRegisters (registers (slave h)) address quantity of
                  Inl err \<Rightarrow>
                    Return ((None, Some err),
                            h\<lparr>slave := recordRequest (slave h) (now_UnixNano env) 0 0 True\<rparr>)
                | Inr rs \<Rightarrow>
                    Return ((Some rs, None),
                            h\<lparr>slave := recordRequest (slave h) (now_UnixNano env) 8
                                          (3 + uint quantity * 2) False\<rparr>)))"

definition HandleWriteSingleCoil ::
  "RequestHandler \<Rightarrow> call_env \<Rightarrow> uint16 \<Rightarrow> bool \<Rightarrow> (error option \<times> RequestHandler) outcome" where
  "HandleWriteSingleCoil h env address v =
     (case applyJitter h env of
        Panic \<Rightarrow> Panic
      | Return _ \<Rightarrow>
          if shouldDropPacket h env then Return (None, h)
          else if (case GetDefinition (registers (slave h)) address of
                     None \<Rightarrow> False
                   | Some meta \<Rightarrow> \<not> Writable meta)
          then Return (Some (ModbusError ExceptionCodeIllegalDataAddress),
                       h\<lparr>slave := recordRequest (slave h) (now_UnixNano env) 0 0 True\<rparr>)
          else (case WriteCoil (registers (slave h)) address v of
                  Inl err \<Rightarrow>
                    Return (Some err,
                      h\<lparr>slave := recordRequest (slave h) (now_UnixNano env) 0 0 True\<rparr>)
                | Inr rm \<Rightarrow>
                    Return (None,
                      h\<lparr>slave := recordRequest ((slave h)\<lparr>registers := rm\<rparr>)
                                    (now_UnixNano env) 8 8 False\<rparr>)))"

definition HandleWriteSingleRegister ::
  "RequestHandler \<Rightarrow> call_env \<Rightarrow> uint16 \<Rightarrow> uint16 \<Rightarrow> (error option \<times> RequestHandler) outcome" where
  "HandleWriteSingleRegister h env address v =
     (case applyJitter h env of
        Panic \<Rightarrow> Panic
      | Return _ \<Rightarrow>
          if shouldDropPacket h env then Return (None, h)
          else if (case GetDefinition (registers (slave h)) address of
                     None \<Rightarrow> False
                   | Some meta \<Rightarrow> \<not> Writable meta)
          then Return (Some (ModbusError ExceptionCodeIllegalDataAddress),
                       h\<lparr>slave := recordRequest (slave h) (now_UnixNano env) 0 0 True\<rparr>)
          else (case WriteHoldingRegister (registers (slave h)) address v of
                  Inl err \<Rightarrow>
                    Return (Some err,
                      h\<lparr>slave := recordRequest (slave h) (now_UnixNano env) 0 0 True\<rparr>)
                | Inr rm \<Rightarrow>
                    Return (None,
                      h\<lparr>slave := recordRequest ((slave h)\<lparr>registers := rm\<rparr>)
                                    (now_UnixNano env) 8 8 False\<rparr>)))"

definition HandleWriteMultipleCoils ::
  "RequestHandler \<Rightarrow> call_env \<Rightarrow> uint16 \<Rightarrow> bool list
     \<Rightarrow> (error option \<times> RequestHandler) outcome" where
  "HandleWriteMultipleCoils h env address vs =
     (case applyJitter h env of
        Panic \<Rightarrow> Panic
      | Return _ \<Rightarrow>
          if shouldDropPacket h env then Return (None, h)
          else (case WriteCoils (registers (slave h)) address vs of
                  Inl err \<Rightarrow>
                    Return (Some err,
                      h\<lparr>slave := recordRequest (slave h) (now_UnixNano env) 0 0 True\<rparr>)
                | Inr rm \<Rightarrow>
                    Return (None,
                      h\<lparr>slave := recordRequest ((slave h)\<lparr>registers := rm\<rparr>)
                                    (now_UnixNano env) (9 + (int (length vs) + 7) div 8) 8
                                    False\<rparr>)))"

definition HandleWriteMultipleRegisters ::
  "RequestHandler \<Rightarrow> call_env \<Rightarrow> uint16 \<Rightarrow> uint16 list
     \<Rightarrow> (error option \<times> RequestHandler) outcome" where
  "HandleWriteMultipleRegisters h env address vs =
     (case applyJitter h env of
        Panic \<Rightarrow> Panic
      | Return _ \<Rightarrow>
          if shouldDropPacket h env then Return (None, h)
          else (case WriteHoldingRegisters (registers (slave h)) address vs of
                  Inl err \<Rightarrow>
                    Return (Some err,
                      h\<lparr>slave := recordRequest (slave h) (now_UnixNano env) 0 0 True\<rparr>)
                | Inr rm \<Rightarrow>
                    Return (None,
                      h\<lparr>slave := recordRequest ((slave h)\<lparr>registers := rm\<rparr>)
                                    (now_UnixNano env) (9 + int (length vs) * 2) 8 False\<rparr>)))"

text \<open>
  The eight methods of \<open>RequestHandler\<close> as one function of a request, to state a property
  of every operation at once.
\<close>

datatype request =
    ReqReadCoils uint16 uint16
  | ReqReadDiscreteInputs uint16 uint16
  | ReqReadHoldingRegisters uint16 uint16
  | ReqReadInputRegisters uint16 uint16
  | ReqWriteSingleCoil uint16 bool
  | ReqWriteSingleRegister uint16 uint16
  | ReqWriteMultipleCoils uint16 "bool list"
  | ReqWriteMultipleRegisters uint16 "uint16 list"

datatype reply = Bits "bool list option" | Words "uint16 list option" | NoData

fun Handle ::
  "RequestHandler \<Rightarrow> call_env \<Rightarrow> request \<Rightarrow> ((reply \<times> error option) \<times> RequestHandler) outcome" where
  "Handle h env (ReqReadCoils a q) =
     map_outcome (\<lambda>((v, e), h'). ((Bits v, e), h')) (HandleReadCoils h env a q)"
| "Handle h env (ReqReadDiscreteInputs a q) =
     map_outcome (\<lambda>((v, e), h'). ((Bits v, e), h')) (HandleReadDiscreteInputs h env a q)"
| "Handle h env (ReqReadHoldingRegisters a q) =
     map_outcome (\<lambda>((v, e), h'). ((Words v, e), h')) (HandleReadHoldingRegisters h env a q)"
| "Handle h env (ReqReadInputRegisters a q) =
     map_outcome (\<lambda>((v, e), h'). ((Words v, e), h')) (HandleReadInputRegisters h env a q)"
| "Handle h env (ReqWriteSingleCoil a v) =
     map_outcome (\<lambda>(e, h'). ((NoData, e), h')) (HandleWriteSingleCoil h env a v)"
| "Handle h env (ReqWriteSingleRegister a v) =
     map_outcome (\<lambda>(e, h'). ((NoData, e), h')) (HandleWriteSingleRegister h env a v)"
| "Handle h env (ReqWriteMultipleCoils a vs) =
     map_outcome (\<lambda>(e, h'). ((NoData, e), h')) (HandleWriteMultipleCoils h env a vs)"
| "Handle h env (ReqWriteMultipleRegisters a vs) =
     map_outcome (\<lambda>(e, h'). ((NoData, e), h')) (HandleWriteMultipleRegisters h env a vs)"

text \<open>
  The pair \<open>(bytesIn, bytesOut)\<close> that each handler passes to \<open>recordRequest\<close> on success.
\<close>

fun recorded_sizes :: "request \<Rightarrow> int \<times> int" where
  "recorded_sizes (ReqReadCoils a q) = (8, 3 + (uint q + 7) div 8)"
| "recorded_sizes (ReqReadDiscreteInputs a q) = (8, 3 + (uint q + 7) div 8)"
| "recorded_sizes (ReqReadHoldingRegisters a q) = (8, 3 + uint q * 2)"
| "recorded_sizes (ReqReadInputRegisters a q) = (8, 3 + uint q * 2)"
| "recorded_sizes (ReqWriteSingleCoil a v) = (8, 8)"
| "recorded_sizes (ReqWriteSingleRegister a v) = (8, 8)"
| "recorded_sizes (ReqWriteMultipleCoils a vs) = (9 + (int (length vs) + 7) div 8, 8)"
| "recorded_sizes (ReqWriteMultipleRegisters a vs) = (9 + int (length vs) * 2, 8)"

text \<open>
  The wire sizes in the words of the specification, for comparison with \<open>recorded_sizes\<close>:
  a request ADU is the 7-byte MBAP header and the PDU (function code and data); so is
  the response ADU of a request that succeeded.
\<close>

definition ModbusTCPHeaderLength :: int where
  "ModbusTCPHeaderLength = 7"

fun spec_request_pdu_length :: "request \<Rightarrow> int" where
  "spec_request_pdu_length (ReqWriteMultipleCoils a vs) = 1 + 2 + 2 + 1 + (int (length vs) + 7) div 8"
| "spec_request_pdu_length (ReqWriteMultipleRegisters a vs) = 1 + 2 + 2 + 1 + 2 * int (length vs)"
| "spec_request_pdu_length _ = 1 + 2 + 2"

fun spec_response_pdu_length :: "request \<Rightarrow> int" where
  "spec_response_pdu_length (ReqReadCoils a q) = 1 + 1 + (uint q + 7) div 8"
| "spec_response_pdu_length (ReqReadDiscreteInputs a q) = 1 + 1 + (uint q + 7) div 8"
| "spec_response_pdu_length (ReqReadHoldingRegisters a q) = 1 + 1 + 2 * uint q"
| "spec_response_pdu_length (ReqReadInputRegisters a q) = 1 + 1 + 2 * uint q"
| "spec_response_pdu_length _ = 1 + 2 + 2"

definition spec_wire_sizes :: "request \<Rightarrow> int \<times> int" where
  "spec_wire_sizes r =
     (ModbusTCPHeaderLength + spec_request_pdu_length r,
      ModbusTCPHeaderLength + spec_response_pdu_length r)"

section \<open>Engine\<close>

text \<open>
  The unit id that \<open>Engine.Start\<close> gives the slave of index \<open>idx\<close>:
  \<open>uint8((int(e.config.Slaves.UnitIDStart) + idx - 1) % 255 + 1)\<close>. Go's \<open>%\<close> truncates
  towards zero (\<open>smod\<close>); \<open>idx\<close> is the index into the list of bind addresses, far below
  the range of Go's \<open>int\<close>.
\<close>

definition Engine_Start_unitID :: "uint8 \<Rightarrow> int \<Rightarrow> uint8" where
  "Engine_Start_unitID UnitIDStart idx = word_of_int ((uint UnitIDStart + idx - 1) smod 255 + 1)"

section \<open>Values of the statements\<close>

text \<open>
  The 32-bit raw value that \<open>SetScaledValue\<close> computes for a two-word type, and the value
  that \<open>GetScaledValue\<close> derives from a 32-bit raw value.
\<close>

definition raw_value32 :: "(float64 \<Rightarrow> uint32) \<Rightarrow> RegisterMeta \<Rightarrow> float64 \<Rightarrow> uint32" where
  "raw_value32 Float32bits meta v =
     (case DataType meta of
        DataTypeUint32 \<Rightarrow> uint32_of_float64 (v * Scale meta)
      | DataTypeInt32 \<Rightarrow> int32_of_float64 (v * Scale meta)
      | DataTypeFloat32 \<Rightarrow> Float32bits v
      | _ \<Rightarrow> 0)"

definition typed_value32 :: "(uint32 \<Rightarrow> float64) \<Rightarrow> RegisterMeta \<Rightarrow> uint32 \<Rightarrow> float64" where
  "typed_value32 Float32frombits meta raw =
     (case DataType meta of
        DataTypeUint32 \<Rightarrow> real (unat raw) / Scale meta
      | DataTypeInt32 \<Rightarrow> real_of_int (sint raw) / Scale meta
      | DataTypeFloat32 \<Rightarrow> Float32frombits raw
      | _ \<Rightarrow> 0)"

text \<open>
  The counters after a request that was not dropped, as \<open>recordRequest\<close> leaves them:
  \<open>err\<close> is the error the handler returned.
\<close>

definition counted :: "RequestHandler \<Rightarrow> call_env \<Rightarrow> request \<Rightarrow> error option \<Rightarrow> SlaveStats" where
  "counted h env r err =
     (let st = stats (slave h) in
      st\<lparr>RequestCount := RequestCount st + 1,
         LastRequestTime := now_UnixNano env,
         BytesReceived := BytesReceived st +
            (if err = None then word_of_int (fst (recorded_sizes r)) else 0),
         BytesSent := BytesSent st +
            (if err = None then word_of_int (snd (recorded_sizes r)) else 0),
         ErrorCount := ErrorCount st + (if err = None then 0 else 1)\<rparr>)"

text \<open>
  A run of scenario ticks. \<open>normal_of\<close> is the handler's own or embedded \<open>NormalScenario\<close>.
  \<open>elapsed_hours s env\<close> is the elapsed time that a tick integrates the power over: the
  hours since \<open>lastUpdate\<close>, which the first tick sets just before.
  \<open>tick_ok\<close> says what a tick may assume: draws of \<open>rand.Float64()\<close> in \<open>[0, 1)\<close>, a
  non-negative elapsed time and, for \<open>NormalScenario\<close>, whose variance comes from the
  configuration, a voltage variance of magnitude at most 1. \<open>handler_ok\<close> holds of the
  zero value and of every state a tick leaves behind. \<open>run_ticks\<close> is the list of handler
  and register map after each tick; \<open>ticks_ok\<close> is \<open>tick_ok\<close> at each tick of the run.
\<close>

fun normal_of :: "ScenarioHandler \<Rightarrow> NormalScenario" where
  "normal_of (HNormal s) = s"
| "normal_of (HVoltageSag s) = sag_normalScenario s"
| "normal_of (HJitter s) = jit_normalScenario s"
| "normal_of (HPacketLoss s) = pl_normalScenario s"

definition elapsed_hours :: "NormalScenario \<Rightarrow> tick_env \<Rightarrow> float64" where
  "elapsed_hours s env =
     Hours (Since (now_since env)
              (if baseVoltage s = 0 then Some (now_init env) else lastUpdate s))"

definition tick_ok :: "ScenarioHandler \<Rightarrow> ScenarioParams \<Rightarrow> tick_env \<Rightarrow> bool" where
  "tick_ok h params env \<longleftrightarrow>
     0 \<le> rand_voltage env \<and> rand_voltage env < 1 \<and>
     0 \<le> rand_current env \<and> rand_current env < 1 \<and>
     0 \<le> elapsed_hours (normal_of h) env \<and>
     (case h of HNormal s \<Rightarrow> \<bar>VoltageVariance params\<bar> \<le> 1 | _ \<Rightarrow> True)"

definition handler_ok :: "ScenarioHandler \<Rightarrow> bool" where
  "handler_ok h \<longleftrightarrow>
     0 \<le> baseVoltage (normal_of h) \<and> 0 \<le> baseCurrent (normal_of h) \<and>
     0 \<le> energy (normal_of h)"

fun run_ticks ::
  "(float64 \<Rightarrow> uint32) \<Rightarrow> (uint32 \<Rightarrow> float64) \<Rightarrow> ScenarioHandler \<Rightarrow> RegisterMap
     \<Rightarrow> (ScenarioParams \<times> tick_env) list \<Rightarrow> (ScenarioHandler \<times> RegisterMap) list" where
  "run_ticks Fb Ff h rm [] = []"
| "run_ticks Fb Ff h rm (t # ts) =
     Update Fb Ff h rm (fst t) (snd t)
       # run_ticks Fb Ff (fst (Update Fb Ff h rm (fst t) (snd t)))
                         (snd (Update Fb Ff h rm (fst t) (snd t))) ts"

fun ticks_ok ::
  "(float64 \<Rightarrow> uint32) \<Rightarrow> (uint32 \<Rightarrow> float64) \<Rightarrow> ScenarioHandler \<Rightarrow> RegisterMap
     \<Rightarrow> (ScenarioParams \<times> tick_env) list \<Rightarrow> bool" where
  "ticks_ok Fb Ff h rm [] = True"
| "ticks_ok Fb Ff h rm (t # ts) =
     (tick_ok h (fst t) (snd t) \<and>
      ticks_ok Fb Ff (fst (Update Fb Ff h rm (fst t) (snd t)))
                     (snd (Update Fb Ff h rm (fst t) (snd t))) ts)"

text \<open>The value of the \<open>TotalEnergy\<close> point as \<open>GetScaledValue(40004)\<close> reads it.\<close>

definition TotalEnergy :: "(uint32 \<Rightarrow> float64) \<Rightarrow> RegisterMap \<Rightarrow> float64" where
  "TotalEnergy Ff rm = GetScaledValue_val Ff rm 40004"

subsection \<open>Concrete inputs\<close>

definition example_map :: RegisterMap where
  "example_map =
     DefineRegister
       (DefineRegister (NewRegisterMap 8 8 8 8)
          40001 ''LineVoltage'' DataTypeUint16 10 ''V'' False)
       40004 ''TotalEnergy'' DataTypeUint32 1 ''kWh'' False"

definition example_slave :: Slave where
  "example_slave =
     \<lparr> ID = ''127.0.0.1:502'', UnitID = 1, state = SlaveStateStopped,
       registers = example_map,
       stats = \<lparr> StartTime = None, RequestCount = 0, ErrorCount = 0, LastRequestTime = 0,
                 BytesReceived = 0, BytesSent = 0 \<rparr>,
       scenario = ScenarioNormal \<rparr>"

definition example_env :: call_env where
  "example_env = \<lparr> rand_Int63 = 12345, rand_Float64 = 1 / 4, now_UnixNano = 1000 \<rparr>"

text \<open>Stand-ins for the two standard-library functions, which no concrete input here uses.\<close>

definition example_Float32bits :: "float64 \<Rightarrow> uint32" where
  "example_Float32bits v = 0"

definition example_Float32frombits :: "uint32 \<Rightarrow> float64" where
  "example_Float32frombits b = 0"

text \<open>
  Two ticks of the Normal scenario one hour apart, with every draw at the middle of its
  range except where noted, under a configured voltage variance of 2 and under the
  default parameters.
\<close>

definition wide_params :: ScenarioParams where
  "wide_params =
     \<lparr> Enabled = True, Duration = 0, VoltageVariance = 2, FrequencyVariance = 0,
       JitterMin = 0, JitterMax = 0, PacketLossRate = 0 \<rparr>"

definition default_params :: ScenarioParams where
  "default_params =
     \<lparr> Enabled = False, Duration = 0, VoltageVariance = 0, FrequencyVariance = 0,
       JitterMin = 0, JitterMax = 0, PacketLossRate = 0 \<rparr>"

definition first_tick :: tick_env where
  "first_tick =
     \<lparr> rand_voltage = 1 / 2, rand_frequency = 1 / 2, rand_current = 1 / 2,
       sag_now_start = 0, now_init = 0, now_since = 0, now_store = 0, sag_now_since = 0 \<rparr>"

definition second_tick :: tick_env where
  "second_tick =
     \<lparr> rand_voltage = 1 / 2, rand_frequency = 1 / 2, rand_current = 1 / 2,
       sag_now_start = 3600000000000, now_init = 3600000000000,
       now_since = 3600000000000, now_store = 3600000000000,
       sag_now_since = 3600000000000 \<rparr>"

definition second_tick_low :: tick_env where
  "second_tick_low = second_tick\<lparr>rand_voltage := 0\<rparr>"

definition default_run :: "(ScenarioParams \<times> tick_env) list" where
  "default_run = [(default_params, first_tick), (default_params, second_tick)]"

definition wide_run_1 :: "ScenarioHandler \<times> RegisterMap" where
  "wide_run_1 =
     Update example_Float32bits example_Float32frombits (HNormal NormalScenario_zero)
       example_map wide_params first_tick"

definition wide_run_2 :: "ScenarioHandler \<times> RegisterMap" where
  "wide_run_2 =
     Update example_Float32bits example_Float32frombits (fst wide_run_1) (snd wide_run_1)
       wide_params second_tick_low"

section \<open>Properties\<close>

subsection \<open>Auxiliary facts\<close>

lemma uint_lt_length: "uint (a::'a::len word) < int n \<Longrightarrow> unat a < n"
  by (metis of_nat_less_iff uint_nat)

lemma holdingIndex_nonneg: "0 \<le> holdingIndex a"
  by (simp add: holdingIndex_def)

lemma holdingIndex_nat: "holdingIndex a < int n \<Longrightarrow> nat (holdingIndex a) < n"
  using holdingIndex_nonneg [of a] by linarith

lemma bulk_read_eq:
  assumes "0 \<le> lo" and "lo + int n \<le> int (length xs)"
  shows "go_copy (replicate n z) (go_slice xs lo (lo + int n)) = take n (drop (nat lo) xs)"
proof -
  have "length (take n (drop (nat lo) xs)) = n"
    using assms by simp
  then show ?thesis
    by (simp add: go_copy_def go_slice_def)
qed

lemma bulk_generic:
  assumes "0 \<le> lo"
  shows "(let end = lo + uint n in
      if lo < 0 \<or> end > int (length xs) then Inl AddressOutOfRange
      else Inr (go_copy (replicate (unat n) z) (go_slice xs lo end)))
    = (if lo + uint n > int (length xs) then Inl AddressOutOfRange
       else Inr (take (unat (n::uint16)) (drop (nat lo) xs)))"
proof -
  have u: "uint n = int (unat n)" by (rule uint_nat)
  show ?thesis
    unfolding Let_def u
    using assms bulk_read_eq [of lo "unat n" xs z] by auto
qed

lemma replicate_8: "replicate 8 x = [x, x, x, x, x, x, x, x]"
  by (simp add: numeral_eq_Suc)

lemma example_map_banks:
  "coils example_map = [False, False, False, False, False, False, False, False]"
  "discreteInputs example_map = [False, False, False, False, False, False, False, False]"
  "inputRegisters example_map = [0, 0, 0, 0, 0, 0, 0, 0]"
  "holdingRegisters example_map = [0, 0, 0, 0, 0, 0, 0, 0]"
  by (simp_all add: example_map_def NewRegisterMap_def DefineRegister_def replicate_8)

lemma holdingIndex_examples:
  "holdingIndex 40001 = 0" "holdingIndex 40003 = 2" "holdingIndex 40004 = 3"
  "holdingIndex 40006 = 5" "holdingIndex 40007 = 6" "holdingIndex 40008 = 7"
  "holdingIndex 40002 = 1"
  by (simp_all add: holdingIndex_def)

subsection \<open>Register round trip\<close>

text \<open>
  C1. Writing a holding register at an address the map accepts succeeds, and reading the
  same address afterwards returns exactly the value written; writing a coil at an in-range
  address succeeds, and reading it afterwards returns the bit written. The write replaces
  one cell of one bank: every other cell of that bank keeps its value, and the other banks
  and the definitions are the fields the record update does not touch.
\<close>

theorem write_then_read_roundtrip:
  "(holdingIndex a < int (length (holdingRegisters rm)) \<longrightarrow>
      WriteHoldingRegister rm a v =
        Inr (rm\<lparr>holdingRegisters := (holdingRegisters rm)[nat (holdingIndex a) := v]\<rparr>)
    \<and> ReadHoldingRegister
        (rm\<lparr>holdingRegisters := (holdingRegisters rm)[nat (holdingIndex a) := v]\<rparr>) a = Inr v
    \<and> (\<forall>i. i \<noteq> nat (holdingIndex a) \<longrightarrow>
          (holdingRegisters rm)[nat (holdingIndex a) := v] ! i = holdingRegisters rm ! i))
 \<and> (uint c < int (length (coils rm)) \<longrightarrow>
      WriteCoil rm c b = Inr (rm\<lparr>coils := (coils rm)[unat c := b]\<rparr>)
    \<and> ReadCoil (rm\<lparr>coils := (coils rm)[unat c := b]\<rparr>) c = Inr b
    \<and> (\<forall>i. i \<noteq> unat c \<longrightarrow> (coils rm)[unat c := b] ! i = coils rm ! i))"
proof (intro conjI impI)
  assume h: "holdingIndex a < int (length (holdingRegisters rm))"
  show "WriteHoldingRegister rm a v =
        Inr (rm\<lparr>holdingRegisters := (holdingRegisters rm)[nat (holdingIndex a) := v]\<rparr>)"
    using h holdingIndex_nonneg [of a] by (simp add: WriteHoldingRegister_def Let_def)
  show "ReadHoldingRegister
        (rm\<lparr>holdingRegisters := (holdingRegisters rm)[nat (holdingIndex a) := v]\<rparr>) a = Inr v"
    using h holdingIndex_nonneg [of a] holdingIndex_nat [OF h]
    by (simp add: ReadHoldingRegister_def Let_def)
  show "\<forall>i. i \<noteq> nat (holdingIndex a) \<longrightarrow>
          (holdingRegisters rm)[nat (holdingIndex a) := v] ! i = holdingRegisters rm ! i"
    by simp
next
  assume h: "uint c < int (length (coils rm))"
  show "WriteCoil rm c b = Inr (rm\<lparr>coils := (coils rm)[unat c := b]\<rparr>)"
    using h by (simp add: WriteCoil_def)
  show "ReadCoil (rm\<lparr>coils := (coils rm)[unat c := b]\<rparr>) c = Inr b"
    using h uint_lt_length [OF h] by (simp add: ReadCoil_def)
  show "\<forall>i. i \<noteq> unat c \<longrightarrow> (coils rm)[unat c := b] ! i = coils rm ! i"
    by simp
qed

theorem write_then_read_roundtrip_witness:
  "holdingIndex 40003 < int (length (holdingRegisters example_map))
 \<and> uint (5 :: uint16) < int (length (coils example_map))
 \<and> WriteHoldingRegister example_map 40003 0x1234 =
      Inr (example_map\<lparr>holdingRegisters := [0, 0, 0x1234, 0, 0, 0, 0, 0]\<rparr>)
 \<and> ReadHoldingRegister
      (example_map\<lparr>holdingRegisters := [0, 0, 0x1234, 0, 0, 0, 0, 0]\<rparr>) 40003 = Inr 0x1234
 \<and> WriteCoil example_map 5 True =
      Inr (example_map\<lparr>coils := [False, False, False, False, False, True, False, False]\<rparr>)
 \<and> ReadCoil
      (example_map\<lparr>coils := [False, False, False, False, False, True, False, False]\<rparr>) 5
      = Inr True"
proof -
  have u: "[0, 0, 0, 0, 0, 0, 0, 0 :: uint16][2 := 0x1234] = [0, 0, 0x1234, 0, 0, 0, 0, 0]"
    by (simp add: numeral_eq_Suc)
  have c: "[False, False, False, False, False, False, False, False][5 := True]
             = [False, False, False, False, False, True, False, False]"
    by (simp add: numeral_eq_Suc)
  show ?thesis
    using write_then_read_roundtrip [of 40003 example_map "0x1234" 5 True] u c
    by (simp add: example_map_banks holdingIndex_examples)
qed

subsection \<open>Bounds of the bulk reads\<close>

text \<open>
  C2 (amended). \<open>ReadCoils\<close>, \<open>ReadDiscreteInputs\<close> and \<open>ReadInputRegisters\<close> return the
  map's address-out-of-range error when \<open>a + n\<close> exceeds the size of their bank, and
  otherwise exactly the \<open>n\<close> stored elements starting at \<open>a\<close>. \<open>ReadHoldingRegisters\<close> does
  the same with the index \<open>holdingIndex a\<close> in place of \<open>a\<close>: an address from 40001 on
  is reduced by 40001 before the check. A read returns no map: none of the four assigns
  to the map.
\<close>

theorem bulk_reads_bounds:
  "ReadCoils rm a n =
     (if uint a + uint n > int (length (coils rm)) then Inl AddressOutOfRange
      else Inr (take (unat n) (drop (unat a) (coils rm))))
 \<and> ReadDiscreteInputs rm a n =
     (if uint a + uint n > int (length (discreteInputs rm)) then Inl AddressOutOfRange
      else Inr (take (unat n) (drop (unat a) (discreteInputs rm))))
 \<and> ReadInputRegisters rm a n =
     (if uint a + uint n > int (length (inputRegisters rm)) then Inl AddressOutOfRange
      else Inr (take (unat n) (drop (unat a) (inputRegisters rm))))
 \<and> ReadHoldingRegisters rm a n =
     (if holdingIndex a + uint n > int (length (holdingRegisters rm)) then Inl AddressOutOfRange
      else Inr (take (unat n) (drop (nat (holdingIndex a)) (holdingRegisters rm))))"
proof (intro conjI)
  show "ReadCoils rm a n =
     (if uint a + uint n > int (length (coils rm)) then Inl AddressOutOfRange
      else Inr (take (unat n) (drop (unat a) (coils rm))))"
    using bulk_generic [of "uint a" n "coils rm" False]
    by (simp add: ReadCoils_def Let_def)
  show "ReadDiscreteInputs rm a n =
     (if uint a + uint n > int (length (discreteInputs rm)) then Inl AddressOutOfRange
      else Inr (take (unat n) (drop (unat a) (discreteInputs rm))))"
    using bulk_generic [of "uint a" n "discreteInputs rm" False]
    by (simp add: ReadDiscreteInputs_def Let_def)
  show "ReadInputRegisters rm a n =
     (if uint a + uint n > int (length (inputRegisters rm)) then Inl AddressOutOfRange
      else Inr (take (unat n) (drop (unat a) (inputRegisters rm))))"
    using bulk_generic [of "uint a" n "inputRegisters rm" 0]
    by (simp add: ReadInputRegisters_def Let_def)
  show "ReadHoldingRegisters rm a n =
     (if holdingIndex a + uint n > int (length (holdingRegisters rm)) then Inl AddressOutOfRange
      else Inr (take (unat n) (drop (nat (holdingIndex a)) (holdingRegisters rm))))"
    using bulk_generic [OF holdingIndex_nonneg, of a n "holdingRegisters rm" 0]
      holdingIndex_nonneg [of a]
    by (simp add: ReadHoldingRegisters_def Let_def)
qed

theorem bulk_reads_bounds_witness:
  "ReadCoils (example_map\<lparr>coils := [False, True, True, False, True, False, False, False]\<rparr>) 1 4
     = Inr [True, True, False, True]
 \<and> ReadCoils example_map 6 3 = Inl AddressOutOfRange
 \<and> ReadHoldingRegisters (example_map\<lparr>holdingRegisters := [1, 2, 3, 4, 5, 6, 7, 8]\<rparr>) 40003 2
     = Inr [3, 4]
 \<and> ReadHoldingRegisters example_map 40008 2 = Inl AddressOutOfRange"
  using bulk_reads_bounds
          [of "example_map\<lparr>coils := [False, True, True, False, True, False, False, False]\<rparr>" 1 4]
        bulk_reads_bounds [of example_map 6 3]
        bulk_reads_bounds [of "example_map\<lparr>holdingRegisters := [1, 2, 3, 4, 5, 6, 7, 8]\<rparr>" 40003 2]
        bulk_reads_bounds [of example_map 40008 2]
  by (simp add: example_map_banks holdingIndex_examples)

text \<open>
  The claim as stated fails for the holding bank: at address 40001 and quantity 1 the sum
  \<open>a + n\<close> exceeds the size 8 of the bank, and the read succeeds with the register at
  index 0.
\<close>

theorem bulk_reads_bounds_counterexample:
  "uint (40001 :: uint16) + uint (1 :: uint16)
     > int (length (holdingRegisters (example_map\<lparr>holdingRegisters := [1, 2, 3, 4, 5, 6, 7, 8]\<rparr>)))
 \<and> ReadHoldingRegisters (example_map\<lparr>holdingRegisters := [1, 2, 3, 4, 5, 6, 7, 8]\<rparr>) 40001 1
     = Inr [1]"
  by (simp add: ReadHoldingRegisters_def holdingIndex_def go_copy_def go_slice_def)

subsection \<open>Unit ids\<close>

text \<open>
  C9. For a configured \<open>unit_id_start\<close> in \<open>[1, 255]\<close> and a slave index \<open>i \<ge> 0\<close>, the
  unit id assigned to the \<open>i\<close>-th slave is \<open>((unit_id_start - 1 + i) mod 255) + 1\<close>, and it
  lies in \<open>[1, 255]\<close>. (A \<open>uint8\<close> is at most 255.)
\<close>

theorem unit_id_assignment:
  assumes s: "1 \<le> uint s" and i: "0 \<le> i"
  shows "uint (Engine_Start_unitID s i) = ((uint s - 1 + i) mod 255) + 1
       \<and> 1 \<le> uint (Engine_Start_unitID s i) \<and> uint (Engine_Start_unitID s i) \<le> 255"
proof -
  define k where "k = uint s + i - 1"
  have k0: "0 \<le> k" using s i by (simp add: k_def)
  have sm: "k smod 255 = k mod 255"
    using k0 by (simp add: signed_modulo_int_def sgn_if)
  have r: "0 \<le> k mod 255" "k mod 255 < 255" by simp_all
  have w: "uint (word_of_int m :: uint8) = m" if "0 \<le> m" "m < 256" for m
    using that by (simp add: uint_word_of_int take_bit_int_eq_self)
  have "uint (word_of_int (k mod 255 + 1) :: uint8) = k mod 255 + 1"
    using r by (intro w) simp_all
  moreover have "uint s - 1 + i = k" by (simp add: k_def)
  ultimately show ?thesis
    using r sm by (simp add: Engine_Start_unitID_def k_def [symmetric])
qed

theorem unit_id_assignment_witness:
  "1 \<le> uint (200 :: uint8) \<and> (0 :: int) \<le> 100 \<and> uint (Engine_Start_unitID 200 100) = 45"
  using unit_id_assignment [of 200 100] by simp

subsection \<open>Slave life cycle\<close>

text \<open>
  C6 (amended). \<open>Start\<close> makes its transition only from \<open>Stopped\<close>: it stores \<open>Starting\<close>
  and then \<open>Running\<close> and returns no error when the listener binds, and stores \<open>Starting\<close>
  and then \<open>Stopped\<close> and returns an error when the bind fails; from every other state it
  returns an error and stores nothing. \<open>Stop\<close> makes its transition only from \<open>Running\<close>:
  it stores \<open>Stopping\<close> and then \<open>Stopped\<close>; from every other state it stores nothing
  and returns \<open>nil\<close>, not an error.
\<close>

theorem slave_lifecycle:
  "(state s = SlaveStateStopped \<longrightarrow>
      Start s now True =
        (None, s\<lparr>state := SlaveStateRunning, stats := (stats s)\<lparr>StartTime := Some now\<rparr>\<rparr>,
         [SlaveStateStarting, SlaveStateRunning])
    \<and> Start s now False =
        (Some ListenFailed,
         s\<lparr>state := SlaveStateStopped, stats := (stats s)\<lparr>StartTime := Some now\<rparr>\<rparr>,
         [SlaveStateStarting, SlaveStateStopped]))
 \<and> (state s \<noteq> SlaveStateStopped \<longrightarrow> Start s now ok = (Some AlreadyRunning, s, []))
 \<and> (state s = SlaveStateRunning \<longrightarrow>
      Stop s = (None, s\<lparr>state := SlaveStateStopped\<rparr>, [SlaveStateStopping, SlaveStateStopped]))
 \<and> (state s \<noteq> SlaveStateRunning \<longrightarrow> Stop s = (None, s, []))"
  by (simp add: Start_def Stop_def CompareAndSwap_def)

theorem slave_lifecycle_witness:
  "state example_slave = SlaveStateStopped
 \<and> fst (Start example_slave 7 True) = None
 \<and> snd (snd (Start example_slave 7 True)) = [SlaveStateStarting, SlaveStateRunning]
 \<and> fst (Start example_slave 7 False) = Some ListenFailed
 \<and> state (fst (snd (Start example_slave 7 False))) = SlaveStateStopped
 \<and> Stop example_slave = (None, example_slave, [])
 \<and> state (example_slave\<lparr>state := SlaveStateRunning\<rparr>) = SlaveStateRunning
 \<and> Start (example_slave\<lparr>state := SlaveStateRunning\<rparr>) 7 True
      = (Some AlreadyRunning, example_slave\<lparr>state := SlaveStateRunning\<rparr>, [])
 \<and> snd (snd (Stop (example_slave\<lparr>state := SlaveStateRunning\<rparr>)))
      = [SlaveStateStopping, SlaveStateStopped]"
  using slave_lifecycle [of example_slave 7 True]
        slave_lifecycle [of "example_slave\<lparr>state := SlaveStateRunning\<rparr>" 7 True]
  by (simp add: example_slave_def)

text \<open>
  The claim as stated fails for \<open>Stop\<close>: on a slave that is \<open>Stopped\<close>, not \<open>Running\<close>,
  \<open>Stop\<close> returns \<open>nil\<close>.
\<close>

theorem slave_lifecycle_counterexample:
  "state example_slave \<noteq> SlaveStateRunning \<and> fst (Stop example_slave) = None"
  by (simp add: Stop_def CompareAndSwap_def example_slave_def)

subsection \<open>Jitter\<close>

lemma applyJitter_Panic:
  "applyJitter h env = Panic \<longleftrightarrow> jitterEnabled h \<and> sint (jitterMax h - jitterMin h) \<le> 0"
  by (simp add: applyJitter_def Int63n_def)

lemma Handle_Panic: "Handle h env r = Panic \<longleftrightarrow> applyJitter h env = Panic"
  by (cases r; cases "applyJitter h env")
     (simp_all add: HandleReadCoils_def HandleReadDiscreteInputs_def HandleReadHoldingRegisters_def
       HandleReadInputRegisters_def HandleWriteSingleCoil_def HandleWriteSingleRegister_def
       HandleWriteMultipleCoils_def HandleWriteMultipleRegisters_def
       split: sum.splits option.splits)

lemma sint_diff_no_overflow:
  fixes a b :: int64
  assumes "- (2 ^ 63) \<le> sint a - sint b" "sint a - sint b < 2 ^ 63"
  shows "sint (a - b) = sint a - sint b"
proof -
  have "sint (a - b) = signed_take_bit 63 (sint a - sint b)"
    by (simp add: sint_word_ariths)
  also have "\<dots> = sint a - sint b"
    using assms by (intro signed_take_bit_int_eq_self) simp_all
  finally show ?thesis .
qed

text \<open>
  C10 (amended). \<open>applyJitter\<close>, and with it every \<open>Handle...\<close> call, panics exactly when
  jitter is enabled and the difference \<open>jitterMax - jitterMin\<close>, computed in wrapping
  \<open>int64\<close> arithmetic, is not positive; it completes otherwise. Where the difference does
  not overflow (as for any two non-negative durations) that is exactly the condition
  \<open>jitterMax \<le> jitterMin\<close> of the claim.
\<close>

theorem jitter_panic:
  "(applyJitter h env = Panic \<longleftrightarrow> jitterEnabled h \<and> sint (jitterMax h - jitterMin h) \<le> 0)
 \<and> (Handle h env r = Panic \<longleftrightarrow> jitterEnabled h \<and> sint (jitterMax h - jitterMin h) \<le> 0)
 \<and> (- (2 ^ 63) \<le> sint (jitterMax h) - sint (jitterMin h)
      \<and> sint (jitterMax h) - sint (jitterMin h) < 2 ^ 63 \<longrightarrow>
      (Handle h env r = Panic \<longleftrightarrow> jitterEnabled h \<and> sint (jitterMax h) \<le> sint (jitterMin h)))"
  using sint_diff_no_overflow [of "jitterMax h" "jitterMin h"]
  by (auto simp: Handle_Panic applyJitter_Panic)

theorem jitter_panic_witness:
  "Handle (SetJitter (NewRequestHandler example_slave) True 100 500) example_env
     (ReqReadCoils 0 1) \<noteq> Panic
 \<and> Handle (SetJitter (NewRequestHandler example_slave) True 500 100) example_env
     (ReqReadCoils 0 1) = Panic
 \<and> Handle (SetJitter (NewRequestHandler example_slave) False 500 100) example_env
     (ReqReadCoils 0 1) \<noteq> Panic"
  using jitter_panic [of "SetJitter (NewRequestHandler example_slave) True 100 500"
                         example_env "ReqReadCoils 0 1"]
        jitter_panic [of "SetJitter (NewRequestHandler example_slave) True 500 100"
                         example_env "ReqReadCoils 0 1"]
        jitter_panic [of "SetJitter (NewRequestHandler example_slave) False 500 100"
                         example_env "ReqReadCoils 0 1"]
  by (simp add: SetJitter_def NewRequestHandler_def)

text \<open>
  The claim as stated fails where the subtraction overflows: with jitter enabled,
  \<open>jitterMin = -1\<close> and \<open>jitterMax = 2 ^ 63 - 1\<close>, \<open>jitterMin < jitterMax\<close> holds and
  \<open>applyJitter\<close> panics.
\<close>

theorem jitter_panic_counterexample:
  "sint (- 1 :: Duration) < sint (9223372036854775807 :: Duration)
 \<and> applyJitter (SetJitter (NewRequestHandler example_slave) True (- 1) 9223372036854775807)
      example_env = Panic"
  by (simp add: applyJitter_def SetJitter_def NewRequestHandler_def Int63n_def)

subsection \<open>Write protection\<close>

lemma go_copy_into_eq:
  "0 \<le> lo \<Longrightarrow> lo + int (length src) \<le> int (length xs) \<Longrightarrow>
   go_copy_into xs lo (lo + int (length src)) src
     = take (nat lo) xs @ src @ drop (nat lo + length src) xs"
  by (simp add: go_copy_into_def go_copy_def go_slice_def nat_add_distrib)

lemma example_definitions:
  "definitions example_map 40001 =
     Some \<lparr> Address = 40001, Name = ''LineVoltage'', DataType = DataTypeUint16, Scale = 10,
            Unit = ''V'', Writable = False, MinValue = 0, MaxValue = 0 \<rparr>"
  "definitions example_map 40004 =
     Some \<lparr> Address = 40004, Name = ''TotalEnergy'', DataType = DataTypeUint32, Scale = 1,
            Unit = ''kWh'', Writable = False, MinValue = 0, MaxValue = 0 \<rparr>"
  by (simp_all add: example_map_def NewRegisterMap_def DefineRegister_def)

text \<open>
  C3 (amended). For a request that the packet-loss simulation does not drop (and whose
  jitter step does not panic), at an address that has a definition with
  \<open>writable = false\<close>: \<open>HandleWriteSingleCoil\<close> and \<open>HandleWriteSingleRegister\<close> return
  the Modbus error with exception code \<open>0x02\<close> and leave the registers as they were;
  \<open>HandleWriteMultipleCoils\<close> and \<open>HandleWriteMultipleRegisters\<close> check no definition and,
  when the range is inside the bank, return no error and store the values.
\<close>

theorem write_protection:
  assumes j: "applyJitter h env \<noteq> Panic" and nd: "\<not> shouldDropPacket h env"
    and d: "GetDefinition (registers (slave h)) a = Some meta" and w: "\<not> Writable meta"
  shows "HandleWriteSingleCoil h env a b =
           Return (Some (ModbusError 0x02),
                   h\<lparr>slave := recordRequest (slave h) (now_UnixNano env) 0 0 True\<rparr>)
       \<and> HandleWriteSingleRegister h env a v =
           Return (Some (ModbusError 0x02),
                   h\<lparr>slave := recordRequest (slave h) (now_UnixNano env) 0 0 True\<rparr>)
       \<and> registers (recordRequest (slave h) (now_UnixNano env) 0 0 True) = registers (slave h)
       \<and> (uint a + int (length bs) \<le> int (length (coils (registers (slave h)))) \<longrightarrow>
           HandleWriteMultipleCoils h env a bs =
             Return (None,
               h\<lparr>slave := recordRequest
                   ((slave h)\<lparr>registers := (registers (slave h))
                      \<lparr>coils := take (unat a) (coils (registers (slave h))) @ bs @
                                drop (unat a + length bs) (coils (registers (slave h)))\<rparr>\<rparr>)
                   (now_UnixNano env) (9 + (int (length bs) + 7) div 8) 8 False\<rparr>))
       \<and> (holdingIndex a + int (length vs)
             \<le> int (length (holdingRegisters (registers (slave h)))) \<longrightarrow>
           HandleWriteMultipleRegisters h env a vs =
             Return (None,
               h\<lparr>slave := recordRequest
                   ((slave h)\<lparr>registers := (registers (slave h))
                      \<lparr>holdingRegisters :=
                         take (nat (holdingIndex a)) (holdingRegisters (registers (slave h))) @ vs @
                         drop (nat (holdingIndex a) + length vs)
                              (holdingRegisters (registers (slave h)))\<rparr>\<rparr>)
                   (now_UnixNano env) (9 + int (length vs) * 2) 8 False\<rparr>))"
proof -
  obtain jv where jv: "applyJitter h env = Return jv"
    using j by (cases "applyJitter h env") simp_all
  have c1: "HandleWriteSingleCoil h env a b =
           Return (Some (ModbusError 0x02),
                   h\<lparr>slave := recordRequest (slave h) (now_UnixNano env) 0 0 True\<rparr>)"
    using nd d w jv by (simp add: HandleWriteSingleCoil_def ExceptionCodeIllegalDataAddress_def)
  have c2: "HandleWriteSingleRegister h env a v =
           Return (Some (ModbusError 0x02),
                   h\<lparr>slave := recordRequest (slave h) (now_UnixNano env) 0 0 True\<rparr>)"
    using nd d w jv
    by (simp add: HandleWriteSingleRegister_def ExceptionCodeIllegalDataAddress_def)
  have c3: "registers (recordRequest (slave h) (now_UnixNano env) 0 0 True) = registers (slave h)"
    by (simp add: recordRequest_def Let_def)
  have c4: "uint a + int (length bs) \<le> int (length (coils (registers (slave h)))) \<longrightarrow>
           HandleWriteMultipleCoils h env a bs =
             Return (None,
               h\<lparr>slave := recordRequest
                   ((slave h)\<lparr>registers := (registers (slave h))
                      \<lparr>coils := take (unat a) (coils (registers (slave h))) @ bs @
                                drop (unat a + length bs) (coils (registers (slave h)))\<rparr>\<rparr>)
                   (now_UnixNano env) (9 + (int (length bs) + 7) div 8) 8 False\<rparr>)"
    using nd jv go_copy_into_eq [of "uint a" bs "coils (registers (slave h))"]
    by (simp add: HandleWriteMultipleCoils_def WriteCoils_def Let_def)
  have c5: "holdingIndex a + int (length vs)
             \<le> int (length (holdingRegisters (registers (slave h)))) \<longrightarrow>
           HandleWriteMultipleRegisters h env a vs =
             Return (None,
               h\<lparr>slave := recordRequest
                   ((slave h)\<lparr>registers := (registers (slave h))
                      \<lparr>holdingRegisters :=
                         take (nat (holdingIndex a)) (holdingRegisters (registers (slave h))) @ vs @
                         drop (nat (holdingIndex a) + length vs)
                              (holdingRegisters (registers (slave h)))\<rparr>\<rparr>)
                   (now_UnixNano env) (9 + int (length vs) * 2) 8 False\<rparr>)"
    using nd jv holdingIndex_nonneg [of a]
      go_copy_into_eq [of "holdingIndex a" vs "holdingRegisters (registers (slave h))"]
    by (simp add: HandleWriteMultipleRegisters_def WriteHoldingRegisters_def Let_def)
  show ?thesis
    using c1 c2 c3 c4 c5 by blast
qed

theorem write_protection_witness:
  "applyJitter (NewRequestHandler example_slave) example_env \<noteq> Panic
 \<and> \<not> shouldDropPacket (NewRequestHandler example_slave) example_env
 \<and> HandleWriteSingleCoil (NewRequestHandler example_slave) example_env 40001 True =
      Return (Some (ModbusError 0x02),
        (NewRequestHandler example_slave)
          \<lparr>slave := recordRequest example_slave 1000 0 0 True\<rparr>)
 \<and> HandleWriteSingleRegister (NewRequestHandler example_slave) example_env 40001 5 =
      Return (Some (ModbusError 0x02),
        (NewRequestHandler example_slave)
          \<lparr>slave := recordRequest example_slave 1000 0 0 True\<rparr>)
 \<and> HandleWriteMultipleRegisters (NewRequestHandler example_slave) example_env 40001 [5, 6] =
      Return (None,
        (NewRequestHandler example_slave)
          \<lparr>slave := recordRequest
              (example_slave\<lparr>registers := example_map
                 \<lparr>holdingRegisters := [5, 6, 0, 0, 0, 0, 0, 0]\<rparr>\<rparr>) 1000 13 8 False\<rparr>)"
proof -
  let ?h = "NewRequestHandler example_slave"
  have j: "applyJitter ?h example_env \<noteq> Panic"
    by (simp add: applyJitter_def NewRequestHandler_def)
  have nd: "\<not> shouldDropPacket ?h example_env"
    by (simp add: shouldDropPacket_def NewRequestHandler_def)
  have d: "GetDefinition (registers (slave ?h)) 40001 =
     Some \<lparr> Address = 40001, Name = ''LineVoltage'', DataType = DataTypeUint16, Scale = 10,
            Unit = ''V'', Writable = False, MinValue = 0, MaxValue = 0 \<rparr>"
    by (simp add: GetDefinition_def NewRequestHandler_def example_slave_def example_definitions)
  have w: "\<not> Writable \<lparr> Address = 40001, Name = ''LineVoltage'', DataType = DataTypeUint16,
            Scale = 10, Unit = ''V'', Writable = False, MinValue = 0, MaxValue = 0 \<rparr>"
    by simp
  have r: "registers (slave ?h) = example_map" "slave ?h = example_slave"
    "registers example_slave = example_map"
    by (simp_all add: NewRequestHandler_def example_slave_def)
  show ?thesis
    using j nd write_protection [OF j nd d w, of True 5 "[]" "[5, 6]"]
    by (simp add: r example_map_banks holdingIndex_examples example_env_def)
qed

text \<open>
  The claim as stated fails when the request is dropped: with a packet-loss rate of 1
  every draw in \<open>[0, 1)\<close> drops the request, and a single write to the read-only point
  40001 returns \<open>nil\<close>, with the handler unchanged.
\<close>

theorem write_protection_counterexample:
  "GetDefinition (registers (slave (SetPacketLoss (NewRequestHandler example_slave) 1))) 40001
     \<noteq> None
 \<and> \<not> Writable (the (GetDefinition
       (registers (slave (SetPacketLoss (NewRequestHandler example_slave) 1))) 40001))
 \<and> HandleWriteSingleRegister (SetPacketLoss (NewRequestHandler example_slave) 1)
      example_env 40001 5
    = Return (None, SetPacketLoss (NewRequestHandler example_slave) 1)"
  by (simp add: HandleWriteSingleRegister_def applyJitter_def shouldDropPacket_def
      SetPacketLoss_def NewRequestHandler_def example_env_def GetDefinition_def
      example_slave_def example_definitions)

subsection \<open>Request counters\<close>

lemma stats_recordRequest:
  "stats (recordRequest s now bi bo e) =
     (stats s)\<lparr>RequestCount := RequestCount (stats s) + 1,
               LastRequestTime := now,
               BytesReceived := BytesReceived (stats s) + word_of_int bi,
               BytesSent := BytesSent (stats s) + word_of_int bo,
               ErrorCount := ErrorCount (stats s) + (if e then 1 else 0)\<rparr>"
  by (simp add: recordRequest_def Let_def)

text \<open>
  C8 (amended). Every request that is not dropped (and whose jitter step does not panic)
  increments the request counter by one. When it succeeds, the byte counters grow by the
  sizes the handler passes to \<open>recordRequest\<close> (\<open>recorded_sizes\<close>: 8 and \<open>3 + \<lceil>q / 8\<rceil>\<close> for
  FC 01/02, 8 and \<open>3 + 2q\<close> for FC 03/04, 8 and 8 for FC 05/06, \<open>9 + \<lceil>n / 8\<rceil>\<close> and 8 for
  FC 15, \<open>9 + 2n\<close> and 8 for FC 16) and the error counter is unchanged; when it returns an
  error, the error counter grows by one and the byte counters are unchanged. A dropped
  request returns no error and changes no counter.
\<close>

theorem request_counters:
  assumes j: "applyJitter h env \<noteq> Panic"
  shows "case Handle h env r of
      Panic \<Rightarrow> False
    | Return ((rep, err), h') \<Rightarrow>
        if shouldDropPacket h env then err = None \<and> h' = h
        else stats (slave h') = counted h env r err"
proof -
  obtain jv where jv: "applyJitter h env = Return jv"
    using j by (cases "applyJitter h env") simp_all
  show ?thesis
  proof (cases r)
    case (ReqReadCoils a q)
    then show ?thesis using jv
      by (simp add: HandleReadCoils_def counted_def stats_recordRequest Let_def
          split: sum.splits)
  next
    case (ReqReadDiscreteInputs a q)
    then show ?thesis using jv
      by (simp add: HandleReadDiscreteInputs_def counted_def stats_recordRequest Let_def
          split: sum.splits)
  next
    case (ReqReadHoldingRegisters a q)
    then show ?thesis using jv
      by (simp add: HandleReadHoldingRegisters_def counted_def stats_recordRequest Let_def
          split: sum.splits)
  next
    case (ReqReadInputRegisters a q)
    then show ?thesis using jv
      by (simp add: HandleReadInputRegisters_def counted_def stats_recordRequest Let_def
          split: sum.splits)
  next
    case (ReqWriteSingleCoil a v)
    then show ?thesis using jv
      by (simp add: HandleWriteSingleCoil_def counted_def stats_recordRequest Let_def
          split: sum.splits)
  next
    case (ReqWriteSingleRegister a v)
    then show ?thesis using jv
      by (simp add: HandleWriteSingleRegister_def counted_def stats_recordRequest Let_def
          split: sum.splits)
  next
    case (ReqWriteMultipleCoils a vs)
    then show ?thesis using jv
      by (simp add: HandleWriteMultipleCoils_def counted_def stats_recordRequest Let_def
          split: sum.splits)
  next
    case (ReqWriteMultipleRegisters a vs)
    then show ?thesis using jv
      by (simp add: HandleWriteMultipleRegisters_def counted_def stats_recordRequest Let_def
          split: sum.splits)
  qed
qed

theorem request_counters_witness:
  "applyJitter (NewRequestHandler example_slave) example_env \<noteq> Panic
 \<and> (case Handle (NewRequestHandler example_slave) example_env (ReqReadHoldingRegisters 40001 2) of
      Panic \<Rightarrow> False
    | Return ((rep, err), h') \<Rightarrow>
        err = None
      \<and> stats (slave h') =
          \<lparr> StartTime = None, RequestCount = 1, ErrorCount = 0, LastRequestTime = 1000,
            BytesReceived = 8, BytesSent = 7 \<rparr>)
 \<and> (case Handle (NewRequestHandler example_slave) example_env (ReqReadHoldingRegisters 40008 2) of
      Panic \<Rightarrow> False
    | Return ((rep, err), h') \<Rightarrow>
        err = Some AddressOutOfRange
      \<and> stats (slave h') =
          \<lparr> StartTime = None, RequestCount = 1, ErrorCount = 1, LastRequestTime = 1000,
            BytesReceived = 0, BytesSent = 0 \<rparr>)"
proof -
  let ?h = "NewRequestHandler example_slave"
  have j: "applyJitter ?h example_env \<noteq> Panic"
    by (simp add: applyJitter_def NewRequestHandler_def)
  have nd: "\<not> shouldDropPacket ?h example_env"
    by (simp add: shouldDropPacket_def NewRequestHandler_def)
  have r: "registers (slave ?h) = example_map"
    by (simp add: NewRequestHandler_def example_slave_def)
  have e1: "\<exists>rep h'. Handle ?h example_env (ReqReadHoldingRegisters 40001 2)
              = Return ((rep, None), h')"
    using j nd
    by (cases "applyJitter ?h example_env")
       (simp_all add: HandleReadHoldingRegisters_def ReadHoldingRegisters_def r
          example_map_banks holdingIndex_examples)
  have e2: "\<exists>rep h'. Handle ?h example_env (ReqReadHoldingRegisters 40008 2)
              = Return ((rep, Some AddressOutOfRange), h')"
    using j nd
    by (cases "applyJitter ?h example_env")
       (simp_all add: HandleReadHoldingRegisters_def ReadHoldingRegisters_def r
          example_map_banks holdingIndex_examples)
  have s: "stats (slave ?h) =
          \<lparr> StartTime = None, RequestCount = 0, ErrorCount = 0, LastRequestTime = 0,
            BytesReceived = 0, BytesSent = 0 \<rparr>"
    by (simp add: NewRequestHandler_def example_slave_def)
  show ?thesis
    using j nd e1 e2
      request_counters [OF j, of "ReqReadHoldingRegisters 40001 2"]
      request_counters [OF j, of "ReqReadHoldingRegisters 40008 2"]
    by (auto simp: counted_def s example_env_def)
qed

text \<open>
  The claim as stated fails twice. A successful read of one coil adds 8 to the bytes
  received and 4 to the bytes sent, where the request ADU has \<open>7 + 5 = 12\<close> bytes and the
  response ADU \<open>7 + 3 = 10\<close>. A dropped request (packet-loss rate 1) leaves the handler,
  and with it the error counter, unchanged.
\<close>

theorem request_counters_counterexample:
  "spec_wire_sizes (ReqReadCoils 0 1) = (12, 10)
 \<and> Handle (NewRequestHandler example_slave) example_env (ReqReadCoils 0 1)
     = Return ((Bits (Some [False]), None),
               (NewRequestHandler example_slave)
                 \<lparr>slave := recordRequest example_slave 1000 8 4 False\<rparr>)
 \<and> BytesReceived (stats (recordRequest example_slave 1000 8 4 False)) = 8
 \<and> BytesSent (stats (recordRequest example_slave 1000 8 4 False)) = 4
 \<and> shouldDropPacket (SetPacketLoss (NewRequestHandler example_slave) 1) example_env
 \<and> Handle (SetPacketLoss (NewRequestHandler example_slave) 1) example_env (ReqReadCoils 0 1)
     = Return ((Bits None, None), SetPacketLoss (NewRequestHandler example_slave) 1)"
proof -
  have r: "ReadCoils example_map 0 1 = Inr [False]"
    by (simp add: ReadCoils_def go_copy_def go_slice_def example_map_banks)
  have s: "registers example_slave = example_map"
          "stats example_slave =
             \<lparr> StartTime = None, RequestCount = 0, ErrorCount = 0, LastRequestTime = 0,
               BytesReceived = 0, BytesSent = 0 \<rparr>"
    by (simp_all add: example_slave_def)
  show ?thesis
    by (simp add: spec_wire_sizes_def ModbusTCPHeaderLength_def HandleReadCoils_def
        applyJitter_def shouldDropPacket_def SetPacketLoss_def NewRequestHandler_def
        example_env_def r s stats_recordRequest)
qed

subsection \<open>Scaled values\<close>

lemma unat_uint16_of_float64:
  assumes "0 \<le> y" "y \<le> 65535"
  shows "unat (uint16_of_float64 y) = nat \<lfloor>y\<rfloor>"
proof -
  have f: "0 \<le> \<lfloor>y\<rfloor>" "\<lfloor>y\<rfloor> < 65536"
    using assms by (simp_all add: floor_less_iff)
  have "uint (word_of_int \<lfloor>y\<rfloor> :: uint16) = \<lfloor>y\<rfloor>"
    using f by (simp add: uint_word_of_int take_bit_int_eq_self)
  then show ?thesis
    using assms by (simp add: uint16_of_float64_def float_trunc_def unat_eq_nat_uint)
qed

lemma floor_round_close: "\<bar>real_of_int \<lfloor>y\<rfloor> - real_of_int (round y)\<bar> \<le> 1"
proof -
  have "\<lfloor>y\<rfloor> \<le> round y" by (simp add: round_def floor_mono)
  moreover have "round y \<le> \<lfloor>y\<rfloor> + 1"
    unfolding round_def by (simp add: floor_le_iff) linarith
  ultimately have "\<bar>\<lfloor>y\<rfloor> - round y\<bar> \<le> 1" by simp
  then show ?thesis by linarith
qed

text \<open>
  C4 (amended). In exact arithmetic: for an address defined as \<open>U16\<close> with scale \<open>s > 0\<close>
  whose register lies inside the holding bank, and \<open>x \<ge> 0\<close> with \<open>x \<cdot> s \<le> 0xFFFF\<close>,
  \<open>SetScaledValue(a, x)\<close> stores \<open>\<lfloor>x \<cdot> s\<rfloor>\<close> (the conversion truncates; nothing rounds),
  \<open>GetScaledValue(a)\<close> then returns \<open>\<lfloor>x \<cdot> s\<rfloor> / s\<close>, and that differs from
  \<open>round(x \<cdot> s) / s\<close> by at most \<open>1 / s\<close>.
\<close>

theorem scaled_quantisation:
  assumes d: "definitions rm a = Some meta" and t: "DataType meta = DataTypeUint16"
    and s: "0 < Scale meta" and x: "0 \<le> x" "x * Scale meta \<le> 65535"
    and r: "holdingIndex a < int (length (holdingRegisters rm))"
  shows "SetScaledValue Fb rm a x =
           Inr (rm\<lparr>holdingRegisters := (holdingRegisters rm)
                   [nat (holdingIndex a) := uint16_of_float64 (x * Scale meta)]\<rparr>)
       \<and> GetScaledValue Ff
            (rm\<lparr>holdingRegisters := (holdingRegisters rm)
                   [nat (holdingIndex a) := uint16_of_float64 (x * Scale meta)]\<rparr>) a
           = Inr (real_of_int \<lfloor>x * Scale meta\<rfloor> / Scale meta)
       \<and> \<bar>real_of_int \<lfloor>x * Scale meta\<rfloor> / Scale meta
           - real_of_int (round (x * Scale meta)) / Scale meta\<bar> \<le> 1 / Scale meta"
proof -
  let ?i = "holdingIndex a" and ?y = "x * Scale meta"
  have i0: "0 \<le> ?i" by (rule holdingIndex_nonneg)
  have l0: "nat ?i < length (holdingRegisters rm)" using r i0 by linarith
  have y0: "0 \<le> ?y" using x s by simp
  have u: "real (unat (uint16_of_float64 ?y)) = real_of_int \<lfloor>?y\<rfloor>"
    using unat_uint16_of_float64 [OF y0 x(2)] y0 by simp
  have set: "SetScaledValue Fb rm a x =
           Inr (rm\<lparr>holdingRegisters := (holdingRegisters rm)
                   [nat ?i := uint16_of_float64 ?y]\<rparr>)"
    using d t i0 r by (simp add: SetScaledValue_def Let_def)
  have get: "GetScaledValue Ff
            (rm\<lparr>holdingRegisters := (holdingRegisters rm)
                   [nat ?i := uint16_of_float64 ?y]\<rparr>) a
           = Inr (real_of_int \<lfloor>?y\<rfloor> / Scale meta)"
    using d t i0 r l0 u by (simp add: GetScaledValue_def Let_def)
  have "\<bar>real_of_int \<lfloor>?y\<rfloor> / Scale meta - real_of_int (round ?y) / Scale meta\<bar>
        = \<bar>real_of_int \<lfloor>?y\<rfloor> - real_of_int (round ?y)\<bar> / Scale meta"
    using s by (simp add: diff_divide_distrib [symmetric] del: of_int_diff)
  also have "\<dots> \<le> 1 / Scale meta"
    using floor_round_close [of ?y] s by (simp add: divide_right_mono)
  finally show ?thesis using set get by simp
qed

lemma list8_update_0: "[x0, x1, x2, x3, x4, x5, x6, x7][0 := y] = [y, x1, x2, x3, x4, x5, x6, x7]"
  by simp

theorem scaled_quantisation_witness:
  "SetScaledValue example_Float32bits example_map 40001 (2207 / 10) =
     Inr (example_map\<lparr>holdingRegisters := [2207, 0, 0, 0, 0, 0, 0, 0]\<rparr>)
 \<and> GetScaledValue example_Float32frombits (example_map\<lparr>holdingRegisters := [2207, 0, 0, 0, 0, 0, 0, 0]\<rparr>)
       40001 = Inr (2207 / 10)"
proof -
  let ?m = "\<lparr> Address = 40001, Name = ''LineVoltage'', DataType = DataTypeUint16, Scale = 10,
            Unit = ''V'', Writable = False, MinValue = 0, MaxValue = 0 \<rparr>"
  have d: "definitions example_map 40001 = Some ?m" by (rule example_definitions)
  have t: "DataType ?m = DataTypeUint16" by simp
  have s: "0 < Scale ?m" by simp
  have x: "(0::real) \<le> 2207 / 10" "2207 / 10 * Scale ?m \<le> 65535" by simp_all
  have r: "holdingIndex 40001 < int (length (holdingRegisters example_map))"
    by (simp add: holdingIndex_examples example_map_banks)
  have c: "uint16_of_float64 2207 = 2207"
    by (simp add: uint16_of_float64_def float_trunc_def)
  show ?thesis
    using scaled_quantisation [OF d t s x r, of example_Float32bits example_Float32frombits] c
    by (simp add: holdingIndex_examples example_map_banks)
qed

text \<open>
  The claim as stated fails where the fraction of \<open>x \<cdot> s\<close> is at least one half: for a
  \<open>U16\<close> point of scale 2 and \<open>x = 0.75\<close> (so \<open>x \<cdot> s = 1.5\<close>, all exact in binary floating
  point) the register receives 1, the read-back is \<open>0.5\<close>, \<open>round(1.5) / 2 = 1\<close>, and the
  difference is \<open>0.5 = 1 / s\<close>, not strictly less.
\<close>

theorem scaled_quantisation_counterexample:
  "definitions (DefineRegister example_map 40002 ''LineCurrent'' DataTypeUint16 2 ''A'' True) 40002
     = Some \<lparr> Address = 40002, Name = ''LineCurrent'', DataType = DataTypeUint16, Scale = 2,
              Unit = ''A'', Writable = True, MinValue = 0, MaxValue = 0 \<rparr>
 \<and> (0 :: real) \<le> 0.75 \<and> (0.75 :: real) * 2 \<le> 65535
 \<and> SetScaledValue example_Float32bits
       (DefineRegister example_map 40002 ''LineCurrent'' DataTypeUint16 2 ''A'' True) 40002 0.75
     = Inr ((DefineRegister example_map 40002 ''LineCurrent'' DataTypeUint16 2 ''A'' True)
              \<lparr>holdingRegisters := [0, 1, 0, 0, 0, 0, 0, 0]\<rparr>)
 \<and> GetScaledValue example_Float32frombits
       ((DefineRegister example_map 40002 ''LineCurrent'' DataTypeUint16 2 ''A'' True)
              \<lparr>holdingRegisters := [0, 1, 0, 0, 0, 0, 0, 0]\<rparr>) 40002
     = Inr 0.5
 \<and> \<not> \<bar>0.5 - real_of_int (round (0.75 * 2 :: real)) / 2\<bar> < 1 / 2"
  by (simp add: SetScaledValue_def GetScaledValue_def DefineRegister_def holdingIndex_examples
      example_map_banks uint16_of_float64_def float_trunc_def round_def)

lemma join_words_split: "join_words (ucast (drop_bit 16 w)) (ucast w) = w"
  unfolding join_words_def
  by (rule bit_word_eqI) (auto simp: bit_simps)

lemma ucast_signed_drop_bit:
  "(ucast (signed_drop_bit 16 (w::32 word)) :: uint16) = ucast (drop_bit 16 w)"
  by (rule bit_word_eqI) (auto simp: bit_simps bit_signed_drop_bit_iff)

text \<open>
  C5 (amended). For an address defined with a two-word type (\<open>U32\<close>, \<open>I32\<close> or \<open>F32\<close>) whose
  two registers lie inside the holding bank, and every value \<open>v\<close>: \<open>SetScaledValue(a, v)\<close>
  writes exactly the registers at \<open>holdingIndex a\<close> and the next index, the more
  significant 16 bits of the 32-bit raw value at the lower index and the less significant
  16 bits at the next, every other register keeping its value; joining the two words, high
  word first, gives the raw value back, and \<open>GetScaledValue(a)\<close> returns the value of
  that raw value; for \<open>F32\<close> the raw value is the bit pattern of \<open>v\<close> itself, not of
  \<open>v \<cdot> scale\<close>.
\<close>

theorem two_word_encoding:
  assumes d: "definitions rm a = Some meta"
    and t: "DataType meta \<in> {DataTypeUint32, DataTypeInt32, DataTypeFloat32}"
    and r: "holdingIndex a + 1 < int (length (holdingRegisters rm))"
  shows "SetScaledValue Fb rm a v =
           Inr (rm\<lparr>holdingRegisters := (holdingRegisters rm)
                   [nat (holdingIndex a) := ucast (drop_bit 16 (raw_value32 Fb meta v)),
                    nat (holdingIndex a) + 1 := ucast (raw_value32 Fb meta v)]\<rparr>)
       \<and> (holdingRegisters rm)
            [nat (holdingIndex a) := ucast (drop_bit 16 (raw_value32 Fb meta v)),
             nat (holdingIndex a) + 1 := ucast (raw_value32 Fb meta v)] ! nat (holdingIndex a)
           = ucast (drop_bit 16 (raw_value32 Fb meta v))
       \<and> (holdingRegisters rm)
            [nat (holdingIndex a) := ucast (drop_bit 16 (raw_value32 Fb meta v)),
             nat (holdingIndex a) + 1 := ucast (raw_value32 Fb meta v)]
              ! (nat (holdingIndex a) + 1)
           = ucast (raw_value32 Fb meta v)
       \<and> (\<forall>i. i \<noteq> nat (holdingIndex a) \<and> i \<noteq> nat (holdingIndex a) + 1 \<longrightarrow>
             (holdingRegisters rm)
               [nat (holdingIndex a) := ucast (drop_bit 16 (raw_value32 Fb meta v)),
                nat (holdingIndex a) + 1 := ucast (raw_value32 Fb meta v)] ! i
             = holdingRegisters rm ! i)
       \<and> join_words (ucast (drop_bit 16 (raw_value32 Fb meta v)))
                     (ucast (raw_value32 Fb meta v)) = raw_value32 Fb meta v
       \<and> GetScaledValue Ff
            (rm\<lparr>holdingRegisters := (holdingRegisters rm)
                   [nat (holdingIndex a) := ucast (drop_bit 16 (raw_value32 Fb meta v)),
                    nat (holdingIndex a) + 1 := ucast (raw_value32 Fb meta v)]\<rparr>) a
           = Inr (typed_value32 Ff meta (raw_value32 Fb meta v))
       \<and> (DataType meta = DataTypeFloat32 \<longrightarrow> raw_value32 Fb meta v = Fb v)"
proof -
  let ?i = "holdingIndex a"
  have i0: "0 \<le> ?i" by (rule holdingIndex_nonneg)
  have n1: "nat (?i + 1) = nat ?i + 1" using i0 by simp
  have l1: "nat ?i + 1 < length (holdingRegisters rm)" using r i0 by linarith
  have l0: "nat ?i < length (holdingRegisters rm)" using l1 by simp
  have ng: "\<not> int (length (holdingRegisters rm)) \<le> ?i + 1" using r by simp
  have set: "SetScaledValue Fb rm a v =
           Inr (rm\<lparr>holdingRegisters := (holdingRegisters rm)
                   [nat ?i := ucast (drop_bit 16 (raw_value32 Fb meta v)),
                    nat ?i + 1 := ucast (raw_value32 Fb meta v)]\<rparr>)"
    using d t i0 ng n1
    by (auto simp: SetScaledValue_def raw_value32_def Let_def ucast_signed_drop_bit)
  have get: "GetScaledValue Ff
            (rm\<lparr>holdingRegisters := (holdingRegisters rm)
                   [nat ?i := ucast (drop_bit 16 (raw_value32 Fb meta v)),
                    nat ?i + 1 := ucast (raw_value32 Fb meta v)]\<rparr>) a
           = Inr (typed_value32 Ff meta (raw_value32 Fb meta v))"
    using d t i0 ng n1 l0 l1
    by (auto simp: GetScaledValue_def typed_value32_def Let_def join_words_split)
  have f: "DataType meta = DataTypeFloat32 \<longrightarrow> raw_value32 Fb meta v = Fb v"
    by (simp add: raw_value32_def)
  show ?thesis
    using set get f l0 l1 by (simp add: join_words_split)
qed

theorem two_word_encoding_witness:
  "SetScaledValue example_Float32bits example_map 40004 70000.5 =
     Inr (example_map\<lparr>holdingRegisters := [0, 0, 0, 1, 4464, 0, 0, 0]\<rparr>)
 \<and> join_words 1 4464 = 70000
 \<and> GetScaledValue example_Float32frombits (example_map\<lparr>holdingRegisters := [0, 0, 0, 1, 4464, 0, 0, 0]\<rparr>)
       40004 = Inr 70000"
proof -
  let ?m = "\<lparr> Address = 40004, Name = ''TotalEnergy'', DataType = DataTypeUint32, Scale = 1,
            Unit = ''kWh'', Writable = False, MinValue = 0, MaxValue = 0 \<rparr>"
  have d: "definitions example_map 40004 = Some ?m" by (rule example_definitions)
  have t: "DataType ?m \<in> {DataTypeUint32, DataTypeInt32, DataTypeFloat32}" by simp
  have r: "holdingIndex 40004 + 1 < int (length (holdingRegisters example_map))"
    by (simp add: holdingIndex_examples example_map_banks)
  have raw: "raw_value32 example_Float32bits ?m (140001 / 2) = 70000"
    by (simp add: raw_value32_def uint32_of_float64_def float_trunc_def)
  have u: "[0, 0, 0, 0, 0, 0, 0, 0 :: uint16][3 := 1, 4 := 4464] = [0, 0, 0, 1, 4464, 0, 0, 0]"
    by (simp add: numeral_eq_Suc)
  have n: "nat 3 = 3" "Suc 3 = 4" by simp_all
  have w: "(70000 :: uint16) = 4464" by simp
  show ?thesis
    using two_word_encoding [OF d t r, of example_Float32bits "70000.5" example_Float32frombits] u
    by (simp add: raw holdingIndex_examples example_map_banks typed_value32_def n w)
qed

text \<open>
  The claim as stated fails for a two-word point whose second register is outside the
  bank: with a \<open>U32\<close> definition at the last index of the holding bank,
  \<open>SetScaledValue\<close> returns the address-out-of-range error and writes nothing.
\<close>

theorem two_word_encoding_counterexample:
  "definitions (DefineRegister example_map 40008 ''Edge'' DataTypeUint32 1 [] True) 40008
     = Some \<lparr> Address = 40008, Name = ''Edge'', DataType = DataTypeUint32, Scale = 1,
              Unit = [], Writable = True, MinValue = 0, MaxValue = 0 \<rparr>
 \<and> SetScaledValue example_Float32bits
       (DefineRegister example_map 40008 ''Edge'' DataTypeUint32 1 [] True) 40008 70000.5
     = Inl AddressOutOfRange"
  by (simp add: SetScaledValue_def DefineRegister_def holdingIndex_examples example_map_banks)

subsection \<open>Energy\<close>

lemma SetScaledValue_stmt_definitions:
  "definitions (SetScaledValue_stmt Fb rm a v) = definitions rm"
  by (simp add: SetScaledValue_stmt_def SetScaledValue_def Let_def
      split: option.splits DataType.splits sum.splits)

lemma SetScaledValue_stmt_length:
  "length (holdingRegisters (SetScaledValue_stmt Fb rm a v)) = length (holdingRegisters rm)"
  by (simp add: SetScaledValue_stmt_def SetScaledValue_def Let_def
      split: option.splits DataType.splits sum.splits)

lemma SetScaledValue_stmt_other:
  assumes "i \<noteq> nat (holdingIndex a)" and "i \<noteq> nat (holdingIndex a) + 1"
  shows "holdingRegisters (SetScaledValue_stmt Fb rm a v) ! i = holdingRegisters rm ! i"
proof -
  have n: "nat (holdingIndex a + 1) = nat (holdingIndex a) + 1"
    using holdingIndex_nonneg [of a] by simp
  show ?thesis
    using assms
    by (simp add: SetScaledValue_stmt_def SetScaledValue_def Let_def n
        split: option.splits DataType.splits sum.splits)
qed

lemma SetScaledValue_stmt_U32:
  assumes d: "definitions rm a = Some meta" and t: "DataType meta = DataTypeUint32"
    and r: "holdingIndex a + 1 < int (length (holdingRegisters rm))"
  shows "holdingRegisters (SetScaledValue_stmt Fb rm a v) =
           (holdingRegisters rm)
             [nat (holdingIndex a) := ucast (drop_bit 16 (uint32_of_float64 (v * Scale meta))),
              nat (holdingIndex a) + 1 := ucast (uint32_of_float64 (v * Scale meta))]"
proof -
  have n: "nat (holdingIndex a + 1) = nat (holdingIndex a) + 1"
    using holdingIndex_nonneg [of a] by simp
  show ?thesis
    using assms holdingIndex_nonneg [of a]
    by (simp add: SetScaledValue_stmt_def SetScaledValue_def Let_def n)
qed

lemma NormalScenario_Update_energy:
  "energy (fst (NormalScenario_Update Fb s rm p e)) =
     energy s +
       ((if baseVoltage s = 0 then 220 else baseVoltage s)
          * (1 + (rand_voltage e * 2 - 1)
                 * (if VoltageVariance p = 0 then 0.005 else VoltageVariance p))
        * ((if baseVoltage s = 0 then 15.5 else baseCurrent s)
             * (1 + (rand_current e * 2 - 1) * 0.02))
        * 0.95) * elapsed_hours s e / 1000"
  by (simp add: NormalScenario_Update_def Let_def elapsed_hours_def)

lemma NormalScenario_Update_bases:
  "baseVoltage (fst (NormalScenario_Update Fb s rm p e))
     = (if baseVoltage s = 0 then 220 else baseVoltage s)"
  "baseCurrent (fst (NormalScenario_Update Fb s rm p e))
     = (if baseVoltage s = 0 then 15.5 else baseCurrent s)"
  by (simp_all add: NormalScenario_Update_def Let_def)

lemma energy_words_kept:
  assumes "a = 40001 \<or> a = 40002 \<or> a = 40006 \<or> a = 40007"
  shows "holdingRegisters (SetScaledValue_stmt Fb rm a v) ! 3 = holdingRegisters rm ! 3"
    and "holdingRegisters (SetScaledValue_stmt Fb rm a v) ! 4 = holdingRegisters rm ! 4"
  using assms
  by (auto simp: SetScaledValue_stmt_other holdingIndex_examples)

lemma energy_words_set:
  assumes d: "definitions rm 40004 = Some meta" and t: "DataType meta = DataTypeUint32"
    and s: "Scale meta = 1" and r: "4 < length (holdingRegisters rm)"
  shows "holdingRegisters (SetScaledValue_stmt Fb rm 40004 v) ! 3
           = ucast (drop_bit 16 (uint32_of_float64 v))"
    and "holdingRegisters (SetScaledValue_stmt Fb rm 40004 v) ! 4
           = ucast (uint32_of_float64 v)"
proof -
  have r': "holdingIndex 40004 + 1 < int (length (holdingRegisters rm))"
    using r by (simp add: holdingIndex_examples)
  have e: "holdingRegisters (SetScaledValue_stmt Fb rm 40004 v) =
             (holdingRegisters rm)
               [3 := ucast (drop_bit 16 (uint32_of_float64 v)),
                4 := ucast (uint32_of_float64 v)]"
    using SetScaledValue_stmt_U32 [OF d t r', of Fb v] s
    by (simp add: holdingIndex_examples)
  show "holdingRegisters (SetScaledValue_stmt Fb rm 40004 v) ! 3
           = ucast (drop_bit 16 (uint32_of_float64 v))"
    using r by (simp add: e)
  show "holdingRegisters (SetScaledValue_stmt Fb rm 40004 v) ! 4
           = ucast (uint32_of_float64 v)"
    using r by (simp add: e)
qed

lemma NormalScenario_Update_frame:
  "definitions (snd (NormalScenario_Update Fb s rm p e)) = definitions rm"
  "length (holdingRegisters (snd (NormalScenario_Update Fb s rm p e)))
     = length (holdingRegisters rm)"
  by (simp_all add: NormalScenario_Update_def Let_def
      SetScaledValue_stmt_definitions SetScaledValue_stmt_length)

lemma NormalScenario_Update_energy_words:
  assumes d: "definitions rm 40004 = Some meta" and t: "DataType meta = DataTypeUint32"
    and s: "Scale meta = 1" and r: "4 < length (holdingRegisters rm)"
  shows "holdingRegisters (snd (NormalScenario_Update Fb s rm p e)) ! 3
           = ucast (drop_bit 16
               (uint32_of_float64 (energy (fst (NormalScenario_Update Fb s rm p e)))))"
    and "holdingRegisters (snd (NormalScenario_Update Fb s rm p e)) ! 4
           = ucast (uint32_of_float64 (energy (fst (NormalScenario_Update Fb s rm p e))))"
proof -
  have w: "holdingRegisters (SetScaledValue_stmt Fb rm' 40004 v) ! 3
             = ucast (drop_bit 16 (uint32_of_float64 v))"
          "holdingRegisters (SetScaledValue_stmt Fb rm' 40004 v) ! 4
             = ucast (uint32_of_float64 v)"
    if "definitions rm' = definitions rm"
       "length (holdingRegisters rm') = length (holdingRegisters rm)" for rm' v
    using energy_words_set [of rm' meta Fb v] that d t s r by simp_all
  show "holdingRegisters (snd (NormalScenario_Update Fb s rm p e)) ! 3
           = ucast (drop_bit 16
               (uint32_of_float64 (energy (fst (NormalScenario_Update Fb s rm p e)))))"
    unfolding NormalScenario_Update_def Let_def
    by (simp only: snd_conv fst_conv energy_words_kept simp_thms NormalScenario.simps)
       (rule w; simp only: SetScaledValue_stmt_definitions SetScaledValue_stmt_length)
  show "holdingRegisters (snd (NormalScenario_Update Fb s rm p e)) ! 4
           = ucast (uint32_of_float64 (energy (fst (NormalScenario_Update Fb s rm p e))))"
    unfolding NormalScenario_Update_def Let_def
    by (simp only: snd_conv fst_conv energy_words_kept simp_thms NormalScenario.simps)
       (rule w; simp only: SetScaledValue_stmt_definitions SetScaledValue_stmt_length)
qed

lemma handler_energy_normal_of: "handler_energy h = energy (normal_of h)"
  by (cases h) simp_all

lemma unat_uint32_of_float64:
  assumes "0 \<le> y" "y < 4294967296"
  shows "unat (uint32_of_float64 y) = nat \<lfloor>y\<rfloor>"
proof -
  have f: "0 \<le> \<lfloor>y\<rfloor>" "\<lfloor>y\<rfloor> < 4294967296"
    using assms by (simp_all add: floor_less_iff)
  have "uint (word_of_int \<lfloor>y\<rfloor> :: uint32) = \<lfloor>y\<rfloor>"
    using f by (simp add: uint_word_of_int take_bit_int_eq_self)
  then show ?thesis
    using assms by (simp add: uint32_of_float64_def float_trunc_def unat_eq_nat_uint)
qed

lemma TotalEnergy_words:
  assumes d: "definitions rm 40004 = Some meta" and t: "DataType meta = DataTypeUint32"
    and s: "Scale meta = 1" and r: "4 < length (holdingRegisters rm)"
  shows "TotalEnergy Ff rm
           = real (unat (join_words (holdingRegisters rm ! 3) (holdingRegisters rm ! 4)))"
  using assms
  by (simp add: TotalEnergy_def GetScaledValue_val_def GetScaledValue_def Let_def
      holdingIndex_examples)

lemma power_nonneg:
  fixes bv bc rv rc vv :: real
  assumes "0 \<le> bv" "0 \<le> bc" "0 \<le> rv" "rv < 1" "0 \<le> rc" "rc < 1" "\<bar>vv\<bar> \<le> 1"
  shows "0 \<le> bv * (1 + (rv * 2 - 1) * vv) * (bc * (1 + (rc * 2 - 1) * 0.02)) * 0.95"
proof -
  have a: "\<bar>rv * 2 - 1\<bar> \<le> 1" using assms by (simp add: abs_le_iff)
  have "\<bar>(rv * 2 - 1) * vv\<bar> \<le> 1 * 1"
    unfolding abs_mult using a assms(7) by (intro mult_mono) simp_all
  then have v: "0 \<le> 1 + (rv * 2 - 1) * vv" by (simp add: abs_le_iff)
  have c: "0 \<le> 1 + (rc * 2 - 1) * 0.02" using assms(5) by (simp add: field_simps)
  have "0 \<le> bv * (1 + (rv * 2 - 1) * vv)" using assms(1) v by simp
  moreover have "0 \<le> bc * (1 + (rc * 2 - 1) * 0.02)" using assms(2) c by simp
  ultimately show ?thesis by simp
qed

lemma NormalScenario_Update_monotone:
  assumes b: "0 \<le> baseVoltage s" "0 \<le> baseCurrent s"
    and rv: "0 \<le> rand_voltage e" "rand_voltage e < 1"
    and rc: "0 \<le> rand_current e" "rand_current e < 1"
    and el: "0 \<le> elapsed_hours s e"
    and vv: "\<bar>if VoltageVariance p = 0 then 0.005 else VoltageVariance p\<bar> \<le> 1"
  shows "energy s \<le> energy (fst (NormalScenario_Update Fb s rm p e))"
proof -
  have bv: "0 \<le> (if baseVoltage s = 0 then 220 else baseVoltage s)" using b by simp
  have bc: "0 \<le> (if baseVoltage s = 0 then 15.5 else baseCurrent s)" using b by simp
  have "0 \<le> ((if baseVoltage s = 0 then 220 else baseVoltage s)
          * (1 + (rand_voltage e * 2 - 1)
                 * (if VoltageVariance p = 0 then 0.005 else VoltageVariance p))
        * ((if baseVoltage s = 0 then 15.5 else baseCurrent s)
             * (1 + (rand_current e * 2 - 1) * 0.02))
        * 0.95) * elapsed_hours s e / 1000"
    using power_nonneg [OF bv bc rv rc vv] el by simp
  then show ?thesis
    unfolding NormalScenario_Update_energy by linarith
qed

lemma normal_of_Update:
  "normal_of (fst (Update Fb Ff h rm p e)) =
     fst (NormalScenario_Update Fb (normal_of h) rm
            (case h of HNormal s \<Rightarrow> p | _ \<Rightarrow> inner_params) e)"
  by (cases h)
     (simp_all add: VoltageSagScenario_Update_def JitterScenario_Update_def
        PacketLossScenario_Update_def Let_def split: prod.splits)

lemma Update_frame:
  "definitions (snd (Update Fb Ff h rm p e)) = definitions rm"
  "length (holdingRegisters (snd (Update Fb Ff h rm p e))) = length (holdingRegisters rm)"
  by (cases h;
      simp add: VoltageSagScenario_Update_def JitterScenario_Update_def
        PacketLossScenario_Update_def Let_def case_prod_beta NormalScenario_Update_frame
        SetScaledValue_stmt_definitions SetScaledValue_stmt_length)+

lemma Update_energy_words:
  assumes d: "definitions rm 40004 = Some meta" and t: "DataType meta = DataTypeUint32"
    and s: "Scale meta = 1" and r: "4 < length (holdingRegisters rm)"
  shows "holdingRegisters (snd (Update Fb Ff h rm p e)) ! 3
           = ucast (drop_bit 16 (uint32_of_float64 (handler_energy (fst (Update Fb Ff h rm p e)))))"
    and "holdingRegisters (snd (Update Fb Ff h rm p e)) ! 4
           = ucast (uint32_of_float64 (handler_energy (fst (Update Fb Ff h rm p e))))"
  by (cases h;
      simp add: VoltageSagScenario_Update_def JitterScenario_Update_def
        PacketLossScenario_Update_def Let_def case_prod_beta energy_words_kept
        NormalScenario_Update_energy_words [OF d t s r])+

lemma tick_step:
  assumes ok: "handler_ok h" and t: "tick_ok h p e"
  shows "handler_ok (fst (Update Fb Ff h rm p e))"
    and "handler_energy h \<le> handler_energy (fst (Update Fb Ff h rm p e))"
proof -
  let ?q = "case h of HNormal s \<Rightarrow> p | _ \<Rightarrow> inner_params"
  have vv: "\<bar>if VoltageVariance ?q = 0 then 0.005 else VoltageVariance ?q\<bar> \<le> 1"
    using t by (cases h) (simp_all add: tick_ok_def inner_params_def)
  have m: "energy (normal_of h)
             \<le> energy (fst (NormalScenario_Update Fb (normal_of h) rm ?q e))"
    using ok t vv
    by (intro NormalScenario_Update_monotone) (simp_all add: handler_ok_def tick_ok_def)
  show "handler_energy h \<le> handler_energy (fst (Update Fb Ff h rm p e))"
    using m by (simp add: handler_energy_normal_of normal_of_Update)
  show "handler_ok (fst (Update Fb Ff h rm p e))"
    using ok m
    by (simp add: handler_ok_def normal_of_Update NormalScenario_Update_bases)
qed

lemma run_energy_sorted:
  assumes "handler_ok h" and "ticks_ok Fb Ff h rm ts"
  shows "sorted (handler_energy h # map (\<lambda>x. handler_energy (fst x)) (run_ticks Fb Ff h rm ts))
       \<and> (\<forall>x \<in> set (run_ticks Fb Ff h rm ts). 0 \<le> handler_energy (fst x))"
  using assms
proof (induction ts arbitrary: h rm)
  case Nil
  then show ?case by simp
next
  case (Cons t ts)
  let ?u = "Update Fb Ff h rm (fst t) (snd t)"
  have tk: "tick_ok h (fst t) (snd t)" and rest: "ticks_ok Fb Ff (fst ?u) (snd ?u) ts"
    using Cons.prems(2) by simp_all
  have ok': "handler_ok (fst ?u)" and le: "handler_energy h \<le> handler_energy (fst ?u)"
    using tick_step [OF Cons.prems(1) tk] by simp_all
  have ih: "sorted (handler_energy (fst ?u)
                # map (\<lambda>x. handler_energy (fst x)) (run_ticks Fb Ff (fst ?u) (snd ?u) ts))
       \<and> (\<forall>x \<in> set (run_ticks Fb Ff (fst ?u) (snd ?u) ts). 0 \<le> handler_energy (fst x))"
    using Cons.IH [OF ok' rest] .
  have e0: "0 \<le> handler_energy (fst ?u)"
    using ok' by (simp add: handler_ok_def handler_energy_normal_of)
  have "\<forall>y \<in> set (map (\<lambda>x. handler_energy (fst x)) (run_ticks Fb Ff (fst ?u) (snd ?u) ts)).
          handler_energy (fst ?u) \<le> y"
    using ih by simp
  then have "\<forall>y \<in> set (map (\<lambda>x. handler_energy (fst x)) (run_ticks Fb Ff (fst ?u) (snd ?u) ts)).
          handler_energy h \<le> y"
    using le by force
  then show ?case
    using ih le e0 by simp
qed

lemma run_energy_words:
  assumes d: "definitions rm 40004 = Some meta" and t: "DataType meta = DataTypeUint32"
    and s: "Scale meta = 1" and r: "4 < length (holdingRegisters rm)"
  shows "\<forall>x \<in> set (run_ticks Fb Ff h rm ts).
           definitions (snd x) 40004 = Some meta \<and> 4 < length (holdingRegisters (snd x))
         \<and> holdingRegisters (snd x) ! 3
             = ucast (drop_bit 16 (uint32_of_float64 (handler_energy (fst x))))
         \<and> holdingRegisters (snd x) ! 4 = ucast (uint32_of_float64 (handler_energy (fst x)))"
  using d r
proof (induction ts arbitrary: h rm)
  case Nil
  then show ?case by simp
next
  case (Cons t ts)
  let ?u = "Update Fb Ff h rm (fst t) (snd t)"
  have d': "definitions (snd ?u) 40004 = Some meta"
    using Cons.prems(1) by (simp add: Update_frame)
  have r': "4 < length (holdingRegisters (snd ?u))"
    using Cons.prems(2) by (simp add: Update_frame)
  show ?case
    using Cons.IH [OF d' r'] d' r' Update_energy_words [OF Cons.prems(1) t s Cons.prems(2)]
    by simp
qed

lemma NormalScenario_Update_lastUpdate:
  "lastUpdate (fst (NormalScenario_Update Fb s rm p e)) = Some (now_store e)"
  by (simp add: NormalScenario_Update_def Let_def)

lemma sorted_map_mono:
  "sorted (map f xs) \<Longrightarrow> mono g \<Longrightarrow> sorted (map (\<lambda>x. g (f x)) xs)"
  by (induction xs) (auto simp: monoD)

lemma mono_floor_real: "mono (\<lambda>r :: real. real_of_int \<lfloor>r\<rfloor>)"
  by (rule monoI) (simp add: floor_mono)

text \<open>
  C7 (amended). Take a run of successive ticks of one scenario handler: Normal with a
  configured voltage variance of magnitude at most 1 (the default 0.005 included), or
  VoltageSag, Jitter or PacketLoss, which run the Normal update with the variance 0.005;
  the handler starts at its zero value (or in any state with non-negative base values and
  energy), every draw lies in \<open>[0, 1)\<close> and every elapsed time is non-negative. Then the
  energy field never decreases from tick to tick. If moreover the map defines 40004 as
  \<open>U32\<close> with scale 1 inside the holding bank and the energy stays below \<open>2 ^ 32\<close>, the
  TotalEnergy value read after each tick is the integer part of the energy, and it never
  decreases.
\<close>

theorem energy_monotone:
  assumes ok: "handler_ok h" and tk: "ticks_ok Fb Ff h rm ts"
  shows "sorted (handler_energy h # map (\<lambda>x. handler_energy (fst x)) (run_ticks Fb Ff h rm ts))
       \<and> (definitions rm 40004 = Some meta \<and> DataType meta = DataTypeUint32 \<and> Scale meta = 1
            \<and> 4 < length (holdingRegisters rm)
            \<and> (\<forall>x \<in> set (run_ticks Fb Ff h rm ts). handler_energy (fst x) < 4294967296)
          \<longrightarrow> map (\<lambda>x. TotalEnergy Ff (snd x)) (run_ticks Fb Ff h rm ts)
                = map (\<lambda>x. real_of_int \<lfloor>handler_energy (fst x)\<rfloor>) (run_ticks Fb Ff h rm ts)
              \<and> sorted (map (\<lambda>x. TotalEnergy Ff (snd x)) (run_ticks Fb Ff h rm ts)))"
proof (intro conjI impI)
  let ?run = "run_ticks Fb Ff h rm ts"
  have S: "sorted (handler_energy h # map (\<lambda>x. handler_energy (fst x)) ?run)"
    and N: "\<forall>x \<in> set ?run. 0 \<le> handler_energy (fst x)"
    using run_energy_sorted [OF ok tk] by simp_all
  show "sorted (handler_energy h # map (\<lambda>x. handler_energy (fst x)) ?run)" by (rule S)
  assume a: "definitions rm 40004 = Some meta \<and> DataType meta = DataTypeUint32 \<and> Scale meta = 1
            \<and> 4 < length (holdingRegisters rm)
            \<and> (\<forall>x \<in> set ?run. handler_energy (fst x) < 4294967296)"
  have W: "\<forall>x \<in> set ?run.
           definitions (snd x) 40004 = Some meta \<and> 4 < length (holdingRegisters (snd x))
         \<and> holdingRegisters (snd x) ! 3
             = ucast (drop_bit 16 (uint32_of_float64 (handler_energy (fst x))))
         \<and> holdingRegisters (snd x) ! 4 = ucast (uint32_of_float64 (handler_energy (fst x)))"
    using a by (intro run_energy_words) simp_all
  have E: "TotalEnergy Ff (snd x) = real_of_int \<lfloor>handler_energy (fst x)\<rfloor>"
    if x: "x \<in> set ?run" for x
  proof -
    have t: "DataType meta = DataTypeUint32" and s: "Scale meta = 1" using a by simp_all
    have d: "definitions (snd x) 40004 = Some meta"
      and r: "4 < length (holdingRegisters (snd x))"
      and w3: "holdingRegisters (snd x) ! 3
             = ucast (drop_bit 16 (uint32_of_float64 (handler_energy (fst x))))"
      and w4: "holdingRegisters (snd x) ! 4 = ucast (uint32_of_float64 (handler_energy (fst x)))"
      using W x by simp_all
    have e0: "0 \<le> handler_energy (fst x)" using N x by simp
    have e1: "handler_energy (fst x) < 4294967296" using a x by simp
    have "TotalEnergy Ff (snd x) = real (unat (uint32_of_float64 (handler_energy (fst x))))"
      unfolding TotalEnergy_words [OF d t s r] w3 w4 join_words_split ..
    also have "\<dots> = real (nat \<lfloor>handler_energy (fst x)\<rfloor>)"
      unfolding unat_uint32_of_float64 [OF e0 e1] ..
    also have "\<dots> = real_of_int \<lfloor>handler_energy (fst x)\<rfloor>"
      using e0 by simp
    finally show ?thesis .
  qed
  show M: "map (\<lambda>x. TotalEnergy Ff (snd x)) ?run
         = map (\<lambda>x. real_of_int \<lfloor>handler_energy (fst x)\<rfloor>) ?run"
    using E by simp
  have "sorted (map (\<lambda>x. handler_energy (fst x)) ?run)"
    using S by simp
  then have "sorted (map (\<lambda>x. real_of_int \<lfloor>handler_energy (fst x)\<rfloor>) ?run)"
    by (rule sorted_map_mono) (rule mono_floor_real)
  then show "sorted (map (\<lambda>x. TotalEnergy Ff (snd x)) ?run)"
    unfolding M .
qed

lemma Update_HNormal:
  "Update Fb Ff (HNormal s) rm p e =
     (HNormal (fst (NormalScenario_Update Fb s rm p e)),
      snd (NormalScenario_Update Fb s rm p e))"
  by (simp add: case_prod_beta)

lemmas tick_eval =
  handler_energy_normal_of Update_HNormal NormalScenario_Update_energy
  NormalScenario_Update_bases NormalScenario_Update_lastUpdate elapsed_hours_def
  Since_def Hours_def maxDuration_def minDuration_def NormalScenario_zero_def
  first_tick_def second_tick_def second_tick_low_def

lemma default_run_energies:
  "map (\<lambda>x. handler_energy (fst x))
     (run_ticks example_Float32bits example_Float32frombits (HNormal NormalScenario_zero)
        example_map default_run) = [0, 6479 / 2000]"
  by (simp add: default_run_def default_params_def tick_eval del: Update.simps)

lemma default_run_ok:
  "ticks_ok example_Float32bits example_Float32frombits (HNormal NormalScenario_zero)
     example_map default_run"
  by (simp add: default_run_def default_params_def tick_ok_def tick_eval del: Update.simps)

lemma DefaultRegisterMap_TotalEnergy:
  "definitions (DefaultRegisterMap Fb) 40004 =
     Some \<lparr> Address = 40004, Name = ''TotalEnergy'', DataType = DataTypeUint32, Scale = 1,
            Unit = ''kWh'', Writable = False, MinValue = 0, MaxValue = 0 \<rparr>"
  "length (holdingRegisters (DefaultRegisterMap Fb)) = 10000"
  by (simp_all add: DefaultRegisterMap_def Let_def SetScaledValue_stmt_definitions
      SetScaledValue_stmt_length DefineRegister_def NewRegisterMap_def)

lemma zero_handlers_ok:
  "handler_ok (HNormal NormalScenario_zero)"
  "handler_ok (HVoltageSag VoltageSagScenario_zero)"
  "handler_ok (HJitter JitterScenario_zero)"
  "handler_ok (HPacketLoss PacketLossScenario_zero)"
  by (simp_all add: handler_ok_def NormalScenario_zero_def VoltageSagScenario_zero_def
      JitterScenario_zero_def PacketLossScenario_zero_def)

theorem energy_monotone_witness:
  "handler_ok (HNormal NormalScenario_zero)
 \<and> ticks_ok example_Float32bits example_Float32frombits (HNormal NormalScenario_zero)
      example_map default_run
 \<and> map (\<lambda>x. handler_energy (fst x))
      (run_ticks example_Float32bits example_Float32frombits (HNormal NormalScenario_zero)
         example_map default_run) = [0, 6479 / 2000]
 \<and> map (\<lambda>x. TotalEnergy example_Float32frombits (snd x))
      (run_ticks example_Float32bits example_Float32frombits (HNormal NormalScenario_zero)
         example_map default_run) = [0, 3]"
proof -
  let ?h = "HNormal NormalScenario_zero"
  let ?run = "run_ticks example_Float32bits example_Float32frombits ?h example_map default_run"
  let ?m = "\<lparr> Address = 40004, Name = ''TotalEnergy'', DataType = DataTypeUint32, Scale = 1,
            Unit = ''kWh'', Writable = False, MinValue = 0, MaxValue = 0 \<rparr>"
  have ok: "handler_ok ?h"
    by (simp add: handler_ok_def NormalScenario_zero_def)
  have tk: "ticks_ok example_Float32bits example_Float32frombits ?h example_map default_run"
    by (rule default_run_ok)
  have en: "map (\<lambda>x. handler_energy (fst x)) ?run = [0, 6479 / 2000]"
    by (rule default_run_energies)
  have "\<forall>y \<in> set (map (\<lambda>x. handler_energy (fst x)) ?run). y < 4294967296"
    unfolding en by simp
  then have fit: "\<forall>x \<in> set ?run. handler_energy (fst x) < 4294967296"
    by simp
  have fl: "map (\<lambda>x. real_of_int \<lfloor>handler_energy (fst x)\<rfloor>) ?run
              = map (\<lambda>y. real_of_int \<lfloor>y\<rfloor>) (map (\<lambda>x. handler_energy (fst x)) ?run)"
    by simp
  have "map (\<lambda>x. TotalEnergy example_Float32frombits (snd x)) ?run
          = map (\<lambda>x. real_of_int \<lfloor>handler_energy (fst x)\<rfloor>) ?run"
    using energy_monotone [OF ok tk, of ?m] fit
    by (simp add: example_definitions example_map_banks)
  also have "\<dots> = [0, 3]"
    unfolding fl en by simp
  finally show ?thesis
    using ok tk en by simp
qed

text \<open>
  The claim as stated fails for the Normal scenario under a configured voltage variance
  of 2: a draw of 0 gives the voltage \<open>220 \<cdot> (1 - 2) = -220\<close> and a negative power, and
  over one hour the energy field goes from 0 to \<open>-3.2395\<close>.
\<close>

theorem energy_monotone_counterexample:
  "elapsed_hours (normal_of (HNormal NormalScenario_zero)) first_tick = 0
 \<and> 0 \<le> rand_voltage first_tick \<and> rand_voltage first_tick < 1
 \<and> 0 \<le> rand_current first_tick \<and> rand_current first_tick < 1
 \<and> elapsed_hours (normal_of (fst wide_run_1)) second_tick_low = 1
 \<and> 0 \<le> rand_voltage second_tick_low \<and> rand_voltage second_tick_low < 1
 \<and> 0 \<le> rand_current second_tick_low \<and> rand_current second_tick_low < 1
 \<and> handler_energy (fst wide_run_1) = 0
 \<and> handler_energy (fst wide_run_2) = - (6479 / 2000)
 \<and> handler_energy (fst wide_run_2) < handler_energy (fst wide_run_1)"
  by (simp add: wide_run_1_def wide_run_2_def wide_params_def tick_eval
      del: Update.simps)

end
